theory Spec2Isabelle
  imports Main "HOL-Library.Sublist"
begin

section \<open>dxf2html: a structured HTML view of the DXF tags\<close>

text \<open>
  The module \<^verbatim>\<open>ezdxf/dxf2html.py\<close> turns a loaded drawing into one HTML page. Every
  function of the module is embedded below as a HOL function of the same name. A Python
  exception is a value \<open>Inl e\<close> of the sum type \<open>error + 'a\<close>; a loop, a generator or a
  list comprehension is the recursive function \<open>each\<close>, which stops at the first
  exception as the Python loop does.

  The module imports two functions that it does not define, \<^verbatim>\<open>escape\<close> (from
  \<^verbatim>\<open>ezdxf.c23\<close>) and \<^verbatim>\<open>tag_type\<close> (from \<^verbatim>\<open>ezdxf.tags\<close>). Every renderer takes them as
  the parameters \<open>esc\<close> and \<open>tt\<close>.
\<close>

subsection \<open>Exceptions\<close>

text \<open>
  \<open>FormatError\<close> stands for what \<^verbatim>\<open>str.format\<close> does at a replacement field other than
  the empty field \<^verbatim>\<open>{}\<close>; see \<open>str_format\<close>.
\<close>

datatype error = AttributeError | IndexError | KeyError | ValueError | TypeError | FormatError

definition and_then :: "error + 'a \<Rightarrow> ('a \<Rightarrow> error + 'b) \<Rightarrow> error + 'b" where
  "and_then r f = (case r of Inl e \<Rightarrow> Inl e | Inr x \<Rightarrow> f x)"

text \<open>A generator or comprehension \<^verbatim>\<open>(f(x) for x in xs)\<close>, drained from left to right.\<close>

fun each :: "('a \<Rightarrow> error + 'b) \<Rightarrow> 'a list \<Rightarrow> error + 'b list" where
  "each f [] = Inr []"
| "each f (x # xs) =
     (case f x of
        Inl e \<Rightarrow> Inl e
      | Inr y \<Rightarrow> (case each f xs of Inl e \<Rightarrow> Inl e | Inr ys \<Rightarrow> Inr (y # ys)))"

subsection \<open>Strings\<close>

text \<open>\<^verbatim>\<open>sep.join(xs)\<close>.\<close>

fun join :: "string \<Rightarrow> string list \<Rightarrow> string" where
  "join sep [] = []"
| "join sep [x] = x"
| "join sep (x # y # ys) = x @ sep @ join sep (y # ys)"

text \<open>\<^verbatim>\<open>str(n)\<close> for an integer: decimal digits, with a minus sign below zero.\<close>

fun str_nat :: "nat \<Rightarrow> string" where
  "str_nat n =
     (if n < 10 then [''0123456789'' ! n]
      else str_nat (n div 10) @ [''0123456789'' ! (n mod 10)])"

declare str_nat.simps [simp del]

definition str_int :: "int \<Rightarrow> string" where
  "str_int i = (if i < 0 then CHR ''-'' # str_nat (nat (- i)) else str_nat (nat i))"

text \<open>
  \<^verbatim>\<open>s.upper()\<close>: the letters a to z become A to Z. Characters outside ASCII, which
  Python's Unicode strings may also change, are left as they are.
\<close>

definition upper_char :: "char \<Rightarrow> char" where
  "upper_char c =
     (case map_of (zip ''abcdefghijklmnopqrstuvwxyz'' ''ABCDEFGHIJKLMNOPQRSTUVWXYZ'') c of
        None \<Rightarrow> c
      | Some u \<Rightarrow> u)"

definition upper :: "string \<Rightarrow> string" where
  "upper s = map upper_char s"

text \<open>
  \<^verbatim>\<open>template.format(*args)\<close> for a template that is only known at run time (the section
  wrapper, which is built by one \<^verbatim>\<open>format\<close> call and filled by a second one). The
  template is read from left to right: \<^verbatim>\<open>{{\<close> and \<^verbatim>\<open>}}\<close> give one brace, \<^verbatim>\<open>{}\<close> takes
  the next positional argument and raises IndexError when there is none left, a single
  \<^verbatim>\<open>}\<close> and a \<^verbatim>\<open>{\<close> at the end raise ValueError. A field with anything between its
  braces is outside this model and gives \<open>FormatError\<close>. In a section wrapper, which
  ends in the empty field and is filled with one argument, Python raises at such a field
  or after it (a named field is a KeyError, and neither a numbered field nor a second
  empty one can come before the last), so \<open>FormatError\<close> stands for an exception there;
  which one is not modelled, and no theorem below says that a call returns it.
\<close>

fun str_format :: "string \<Rightarrow> string list \<Rightarrow> nat \<Rightarrow> error + string" where
  "str_format [] args n = Inr []"
| "str_format [c] args n =
     (if c = CHR ''{'' \<or> c = CHR ''}'' then Inl ValueError else Inr [c])"
| "str_format (c # d # cs) args n =
     (if c = CHR ''{'' then
        (if d = CHR ''{'' then map_sum id ((#) c) (str_format cs args n)
         else if d = CHR ''}'' then
           (if n < length args
            then map_sum id ((@) (args ! n)) (str_format cs args (Suc n))
            else Inl IndexError)
         else Inl FormatError)
      else if c = CHR ''}'' then
        (if d = CHR ''}'' then map_sum id ((#) c) (str_format cs args n)
         else Inl ValueError)
      else map_sum id ((#) c) (str_format (d # cs) args n))"

text \<open>\<^verbatim>\<open>xs[i]\<close> on a tuple: a negative index counts from the end.\<close>

definition py_index :: "'a list \<Rightarrow> int \<Rightarrow> error + 'a" where
  "py_index xs i =
     (let n = int (length xs); j = (if i < 0 then n + i else i)
      in if 0 \<le> j \<and> j < n then Inr (xs ! nat j) else Inl IndexError)"

subsection \<open>The document model\<close>

text \<open>
  Modelled from the spec: the classes of the document model (tag records, header
  variables, entities, tables, block layouts, sections, the drawing) are not part of
  \<^verbatim>\<open>dxf2html.py\<close>; the types below follow section 3 of the specification and hold what
  the renderer reads of each object.

  A tag value is an integer, a float or a string. The renderer only ever asks a float
  for its text, so a float is kept as the text that \<^verbatim>\<open>str\<close> gives for it.
\<close>

datatype pyvalue = IntV int | FloatV string | StrV string

text \<open>\<^verbatim>\<open>ustr(value)\<close>.\<close>

fun ustr :: "pyvalue \<Rightarrow> string" where
  "ustr (IntV i) = str_int i"
| "ustr (FloatV r) = r"
| "ustr (StrV s) = s"

record tag =
  code :: int
  "value" :: pyvalue

text \<open>A point is a tuple of numbers; \<^verbatim>\<open>ustr\<close> of a tuple shows each number by its text.\<close>

datatype number = IntN int | FloatN string

fun number_repr :: "number \<Rightarrow> string" where
  "number_repr (IntN i) = str_int i"
| "number_repr (FloatN r) = r"

fun ustr_tuple :: "number list \<Rightarrow> string" where
  "ustr_tuple [x] = ''('' @ number_repr x @ '',)''"
| "ustr_tuple xs = ''('' @ join '', '' (map number_repr xs) @ '')''"

datatype hdrvalue = Scalar pyvalue | Point "number list"

record hdrvar =
  code :: int
  "value" :: hdrvalue


record entity =
  dxftype :: string
  tags :: "tag list"

record table =
  name :: string
  table_header :: "tag list"
  entries :: "entity list"

record block_layout =
  name :: string
  block :: entity
  entities :: "entity list"
  endblk :: entity

text \<open>
  A section has its kind name and, depending on its class, header variables, entities,
  tables, block layouts or raw tags. Reaching for what a section does not have is an
  exception, written AttributeError here (Python raises it at the missing attribute, or
  at the first foreign item of an iteration).
\<close>

datatype section_body =
    HdrVars "(string \<times> hdrvar) list"
  | Entities "entity list"
  | Tables "table list"
  | Blocks "block_layout list"
  | Tags "tag list"

record dxf_section =
  name :: string
  body :: section_body

record drawing =
  filename :: "string option"
  sections :: "dxf_section list"

definition section_hdrvars :: "dxf_section \<Rightarrow> error + (string \<times> hdrvar) list" where
  "section_hdrvars s = (case body s of HdrVars h \<Rightarrow> Inr h | _ \<Rightarrow> Inl AttributeError)"

definition section_entities :: "dxf_section \<Rightarrow> error + entity list" where
  "section_entities s = (case body s of Entities es \<Rightarrow> Inr es | _ \<Rightarrow> Inl AttributeError)"

definition section_tables :: "dxf_section \<Rightarrow> error + table list" where
  "section_tables s = (case body s of Tables ts \<Rightarrow> Inr ts | _ \<Rightarrow> Inl AttributeError)"

definition section_blocks :: "dxf_section \<Rightarrow> error + block_layout list" where
  "section_blocks s = (case body s of Blocks bs \<Rightarrow> Inr bs | _ \<Rightarrow> Inl AttributeError)"

definition section_tags :: "dxf_section \<Rightarrow> error + tag list" where
  "section_tags s = (case body s of Tags ts \<Rightarrow> Inr ts | _ \<Rightarrow> Inl AttributeError)"

subsection \<open>Constants and templates of the module\<close>

definition HANDLE_DEFINITIONS :: "int set" where
  "HANDLE_DEFINITIONS = set ([5, 105] @ [320..329])"

definition HANDLE_LINKS :: "int set" where
  "HANDLE_LINKS = set ([330..369] @ [480, 481, 1005])"

definition GROUP_MARKERS :: "int list" where
  "GROUP_MARKERS = [0, 100, 102, 1001]"

definition MARKER_TEMPLATE :: "string \<Rightarrow> string" where
  \<open>MARKER_TEMPLATE tag = ''<div class="tag-group-marker">'' @ tag @ ''</div>''\<close>

definition TAG_TEMPLATE :: "string \<Rightarrow> string \<Rightarrow> string \<Rightarrow> string" where
  \<open>TAG_TEMPLATE c ty v =
     ''<div class="dxf-tag"><span class="tag-code">'' @ c
     @ ''</span> <span class="var-type">'' @ ty
     @ ''</span> <span class="tag-value">'' @ v @ ''</span></div>''\<close>

definition TAG_TEMPLATE_HANDLE_DEF :: "string \<Rightarrow> string \<Rightarrow> string \<Rightarrow> string" where
  \<open>TAG_TEMPLATE_HANDLE_DEF c ty v =
     ''<div class="dxf-tag"><span id="'' @ v @ ''" class="tag-code">'' @ c
     @ ''</span> <span class="var-type">'' @ ty
     @ ''</span> <span class="tag-value">'' @ v @ ''</span></div>''\<close>

definition TAG_TEMPLATE_HANDLE_LINK :: "string \<Rightarrow> string \<Rightarrow> string \<Rightarrow> string" where
  \<open>TAG_TEMPLATE_HANDLE_LINK c ty v =
     ''<div class="dxf-tag"><span class="tag-code">'' @ c @ '' '' @ ty
     @ ''</span> <a class="tag-value" href="#'' @ v @ ''">'' @ v @ ''</a></div>''\<close>

definition ENTITY_TEMPLATE :: "string \<Rightarrow> string \<Rightarrow> string" where
  \<open>ENTITY_TEMPLATE nm t =
     ''<div class="dxf-entity"><h3>'' @ nm @ ''</h3>\<newline>'' @ t @ ''\<newline></div>''\<close>

definition TOC_ENTRY_TPL :: "string \<Rightarrow> string \<Rightarrow> string" where
  \<open>TOC_ENTRY_TPL link nm = ''<li><a href="#'' @ link @ ''" >'' @ nm @ ''</a></li>''\<close>

definition TOC_TPL :: "string \<Rightarrow> string" where
  \<open>TOC_TPL toc = ''<h2>Table of Contents</h2>\<newline><ul>\<newline>'' @ toc @ ''\<newline></ul>''\<close>

definition SECTION_ID :: "int \<Rightarrow> string" where
  "SECTION_ID index = ''section_'' @ str_int index"

definition HTML_TEMPLATE :: "string \<Rightarrow> string \<Rightarrow> string \<Rightarrow> string" where
  \<open>HTML_TEMPLATE nm toc dxf_file =
     ''<!DOCTYPE html>\<newline><html>\<newline><head>\<newline><meta charset="utf-8">\<newline>''
     @ ''<link rel="stylesheet" href="dxf2html.css">\<newline>''
     @ ''<script src="dxf2html.js"></script>\<newline>''
     @ ''<title>'' @ nm @ ''.dxf</title>\<newline></head>\<newline><body>\<newline>''
     @ ''<h1>DXF-FILE: '' @ nm @ ''.dxf</h1>\<newline><div id="toc">\<newline>'' @ toc
     @ ''\<newline><div>\<newline><div id="dxf-file">\<newline>'' @ dxf_file
     @ ''\<newline></div>\<newline></body>\<newline>''\<close>

subsection \<open>The generic tag-stream renderer\<close>

datatype pytype = T_int | T_float | T_ustr | T_other

definition TAG_TYPES :: "pytype \<rightharpoonup> string" where
  "TAG_TYPES = [T_int \<mapsto> ''<int>'', T_float \<mapsto> ''<float>'', T_ustr \<mapsto> ''<str>'']"

text \<open>
  \<^verbatim>\<open>TAG_TYPES[tag_type(code)]\<close>: the classifier may raise, and what it returns may be
  missing from the dictionary (KeyError).
\<close>

definition tag_type_str :: "(int \<Rightarrow> error + pytype) \<Rightarrow> int \<Rightarrow> error + string" where
  "tag_type_str tt c =
     (case tt c of
        Inl e \<Rightarrow> Inl e
      | Inr t \<Rightarrow> (case TAG_TYPES t of None \<Rightarrow> Inl KeyError | Some s \<Rightarrow> Inr s))"

definition tag2html ::
  "(string \<Rightarrow> string) \<Rightarrow> (int \<Rightarrow> error + pytype) \<Rightarrow> tag \<Rightarrow> error + string" where
  "tag2html esc tt tag =
     (let tpl = (if tag.code tag \<in> HANDLE_DEFINITIONS then TAG_TEMPLATE_HANDLE_DEF
                 else if tag.code tag \<in> HANDLE_LINKS then TAG_TEMPLATE_HANDLE_LINK
                 else TAG_TEMPLATE)
      in case tag_type_str tt (tag.code tag) of
           Inl e \<Rightarrow> Inl e
         | Inr ty \<Rightarrow> Inr (tpl (str_int (tag.code tag)) (esc ty) (esc (ustr (tag.value tag)))))"

definition group_marker :: "tag \<Rightarrow> string \<Rightarrow> string" where
  "group_marker tag tag_html =
     (if tag.code tag \<notin> set GROUP_MARKERS then tag_html else MARKER_TEMPLATE tag_html)"

definition tags2html ::
  "(string \<Rightarrow> string) \<Rightarrow> (int \<Rightarrow> error + pytype) \<Rightarrow> tag list \<Rightarrow> error + string" where
  \<open>tags2html esc tt tgs =
     (case each (\<lambda>tag. map_sum id (group_marker tag) (tag2html esc tt tag)) tgs of
        Inl e \<Rightarrow> Inl e
      | Inr tag_strings \<Rightarrow>
          Inr (''<div class="dxf-tags">\<newline>'' @ join ''\<newline>'' tag_strings @ ''\<newline></div>''))\<close>

subsection \<open>Header variables\<close>

text \<open>
  \<^verbatim>\<open>hdrvar.ispoint\<close> holds when the value is a tuple and \<^verbatim>\<open>hdrvar.getpoint()\<close> is that
  tuple, so the two branches of \<^verbatim>\<open>var2str\<close> and of \<^verbatim>\<open>vartype\<close> are the two cases of the
  value. The label of a point is \<^verbatim>\<open>("<point 2D>", "<point 3D>")[dim]\<close>, a tuple index
  that raises IndexError from length 4 on.
\<close>

definition var2str :: "hdrvar \<Rightarrow> string" where
  "var2str v = (case hdrvar.value v of Point p \<Rightarrow> ustr_tuple p | Scalar x \<Rightarrow> ustr x)"

definition vartype :: "(int \<Rightarrow> error + pytype) \<Rightarrow> hdrvar \<Rightarrow> error + string" where
  "vartype tt v =
     (case hdrvar.value v of
        Point p \<Rightarrow> (let dim = int (length p) - 2 in py_index [''<point 2D>'', ''<point 3D>''] dim)
      | Scalar x \<Rightarrow> tag_type_str tt (hdrvar.code v))"

definition hdrvars2html ::
  "(string \<Rightarrow> string) \<Rightarrow> (int \<Rightarrow> error + pytype) \<Rightarrow> (string \<times> hdrvar) list \<Rightarrow> error + string" where
  \<open>hdrvars2html esc tt hdrvars =
     (case each (\<lambda>(nm, v).
             case vartype tt v of
               Inl e \<Rightarrow> Inl e
             | Inr ty \<Rightarrow> Inr (TAG_TEMPLATE nm (esc ty) (esc (var2str v)))) hdrvars of
        Inl e \<Rightarrow> Inl e
      | Inr varstrings \<Rightarrow>
          Inr (''<div id="dxf-header" class="dxf-header">\<newline>'' @ join ''\<newline>'' varstrings
               @ ''\<newline></div>''))\<close>

subsection \<open>Entities, tables and blocks\<close>

definition entity2html ::
  "(string \<Rightarrow> string) \<Rightarrow> (int \<Rightarrow> error + pytype) \<Rightarrow> entity \<Rightarrow> error + string" where
  "entity2html esc tt entity =
     (case tags2html esc tt (tags entity) of
        Inl e \<Rightarrow> Inl e
      | Inr t \<Rightarrow> Inr (ENTITY_TEMPLATE (dxftype entity) t))"

definition entities2html ::
  "(string \<Rightarrow> string) \<Rightarrow> (int \<Rightarrow> error + pytype) \<Rightarrow> entity list \<Rightarrow> error + string" where
  \<open>entities2html esc tt ents =
     (case each (entity2html esc tt) ents of
        Inl e \<Rightarrow> Inl e
      | Inr entity_strings \<Rightarrow>
          Inr (''<div class="dxf-entities">\<newline>'' @ join ''\<newline>'' entity_strings @ ''\<newline></div>''))\<close>

definition create_table_navigation :: "table list \<Rightarrow> string" where
  "create_table_navigation table_section = ''''"

definition table2html ::
  "(string \<Rightarrow> string) \<Rightarrow> (int \<Rightarrow> error + pytype) \<Rightarrow> table \<Rightarrow> string \<Rightarrow> error + string" where
  \<open>table2html esc tt table navigation =
     (case tags2html esc tt (table_header table) of
        Inl e \<Rightarrow> Inl e
      | Inr t \<Rightarrow>
          (let header = ENTITY_TEMPLATE ''TABLE HEADER'' t
           in case entities2html esc tt (entries table) of
                Inl e \<Rightarrow> Inl e
              | Inr ents \<Rightarrow>
                  Inr (''<div class="dxf-block">\<newline><h2>'' @ upper (table.name table) @ ''</h2>\<newline>''
                       @ navigation @ ''\<newline>'' @ header @ ''\<newline>'' @ ents @ ''\<newline></div>'')))\<close>

definition tables2html ::
  "(string \<Rightarrow> string) \<Rightarrow> (int \<Rightarrow> error + pytype) \<Rightarrow> table list \<Rightarrow> error + string" where
  \<open>tables2html esc tt tables =
     (let navigation = create_table_navigation tables
      in case each (\<lambda>table. table2html esc tt table navigation) tables of
           Inl e \<Rightarrow> Inl e
         | Inr tables_html_strings \<Rightarrow>
             Inr (''<div id="dxf-tables" class="dxf-tables">'' @ join ''\<newline>'' tables_html_strings
                  @ ''</div>''))\<close>

definition block2html ::
  "(string \<Rightarrow> string) \<Rightarrow> (int \<Rightarrow> error + pytype) \<Rightarrow> block_layout \<Rightarrow> error + string" where
  \<open>block2html esc tt bl =
     (case entity2html esc tt (block bl) of
        Inl e \<Rightarrow> Inl e
      | Inr block_html \<Rightarrow>
          (case entities2html esc tt (entities bl) of
             Inl e \<Rightarrow> Inl e
           | Inr entities_html \<Rightarrow>
               (case entity2html esc tt (endblk bl) of
                  Inl e \<Rightarrow> Inl e
                | Inr endblk_html \<Rightarrow>
                    Inr (''<div class="dxf-block">\<newline><h2>'' @ block_layout.name bl @ ''</h2>\<newline>''
                         @ block_html @ ''\<newline>'' @ entities_html @ ''\<newline>'' @ endblk_html
                         @ ''\<newline></div>''))))\<close>

definition blocks2html ::
  "(string \<Rightarrow> string) \<Rightarrow> (int \<Rightarrow> error + pytype) \<Rightarrow> block_layout list \<Rightarrow> error + string" where
  \<open>blocks2html esc tt blocks =
     (case each (block2html esc tt) blocks of
        Inl e \<Rightarrow> Inl e
      | Inr block_strings \<Rightarrow>
          Inr (''<div id="dxf-blocks" class="dxf-blocks">\<newline>'' @ join ''\<newline>'' block_strings
               @ ''\<newline></div>''))\<close>

subsection \<open>Sections, table of contents and the page\<close>

definition create_section_html_template :: "string \<Rightarrow> int \<Rightarrow> string" where
  \<open>create_section_html_template nm index =
     (let prev_id = SECTION_ID (index - 1);
          this_id = SECTION_ID index;
          next_id = SECTION_ID (index + 1)
      in ''<div id="'' @ this_id @ ''" class="dxf-section"><h2>SECTION: '' @ upper nm
         @ ''</h2>\<newline><div><a href="#'' @ prev_id @ ''">previous</a> ''
         @ ''<a href="#'' @ next_id @ ''">next</a></div>\<newline>{}\<newline></div>\<newline>'')\<close>

definition section2html ::
  "(string \<Rightarrow> string) \<Rightarrow> (int \<Rightarrow> error + pytype) \<Rightarrow> dxf_section \<Rightarrow> string \<Rightarrow> error + string" where
  "section2html esc tt s section_template =
     (if dxf_section.name s = ''header'' then
        and_then (and_then (section_hdrvars s) (hdrvars2html esc tt))
          (\<lambda>b. str_format section_template [b] 0)
      else if dxf_section.name s \<in> set [''classes'', ''objects'', ''entities''] then
        and_then (and_then (section_entities s) (entities2html esc tt))
          (\<lambda>b. str_format section_template [b] 0)
      else if dxf_section.name s = ''tables'' then
        and_then (and_then (section_tables s) (tables2html esc tt))
          (\<lambda>b. str_format section_template [b] 0)
      else if dxf_section.name s = ''blocks'' then
        and_then (and_then (section_blocks s) (blocks2html esc tt))
          (\<lambda>b. str_format section_template [b] 0)
      else
        and_then (and_then (section_tags s) (tags2html esc tt))
          (\<lambda>b. str_format section_template [b] 0))"

definition sections2html ::
  "(string \<Rightarrow> string) \<Rightarrow> (int \<Rightarrow> error + pytype) \<Rightarrow> drawing \<Rightarrow> error + string" where
  \<open>sections2html esc tt dwg =
     (case each (\<lambda>(index, s).
             section2html esc tt s (create_section_html_template (dxf_section.name s) (int index)))
           (enumerate 0 (sections dwg)) of
        Inl e \<Rightarrow> Inl e
      | Inr sections_html \<Rightarrow>
          Inr (''<div class="dxf-sections">\<newline>'' @ join ''\<newline>'' sections_html @ ''\<newline></div>''))\<close>

definition sections_toc_as_html :: "drawing \<Rightarrow> string" where
  \<open>sections_toc_as_html dwg =
     (let toc_entries =
            map (\<lambda>(index, s). TOC_ENTRY_TPL (SECTION_ID (int index)) (upper (dxf_section.name s)))
              (enumerate 0 (sections dwg))
      in TOC_TPL (join ''\<newline>'' toc_entries))\<close>

text \<open>
  \<^verbatim>\<open>os.path.basename\<close> and the first component of \<^verbatim>\<open>os.path.splitext\<close>, as the POSIX
  flavour of \<^verbatim>\<open>os.path\<close> computes them: the base name starts after the last slash; the
  extension starts at the last dot, unless only dots come before it.
\<close>

definition basename :: "string \<Rightarrow> string" where
  "basename p = rev (takeWhile (\<lambda>c. c \<noteq> CHR ''/'') (rev p))"

definition splitext_root :: "string \<Rightarrow> string" where
  "splitext_root p =
     (let ext = takeWhile (\<lambda>c. c \<noteq> CHR ''.'') (rev p);
          root = take (length p - length ext - 1) p
      in if length ext < length p \<and> list_ex (\<lambda>c. c \<noteq> CHR ''.'') root then root else p)"

definition get_name :: "drawing \<Rightarrow> string" where
  "get_name dwg =
     (case filename dwg of None \<Rightarrow> ''unknown'' | Some f \<Rightarrow> splitext_root (basename f))"

definition dxf2html ::
  "(string \<Rightarrow> string) \<Rightarrow> (int \<Rightarrow> error + pytype) \<Rightarrow> drawing \<Rightarrow> error + string" where
  "dxf2html esc tt dwg =
     (case sections2html esc tt dwg of
        Inl e \<Rightarrow> Inl e
      | Inr dxf_file \<Rightarrow>
          (let toc = sections_toc_as_html dwg
           in Inr (HTML_TEMPLATE (get_name dwg) toc dxf_file)))"

subsection \<open>The escape function\<close>

text \<open>
  Modelled from the spec: \<^verbatim>\<open>escape\<close> is imported from \<^verbatim>\<open>ezdxf.c23\<close>, which is not part of
  \<^verbatim>\<open>dxf2html.py\<close>. The specification calls it HTML escaping of the characters
  \<^verbatim>\<open><\<close>, \<^verbatim>\<open>>\<close> and \<^verbatim>\<open>&\<close>: each of them is replaced by its entity, every other
  character is kept.
\<close>

definition escape_char :: "char \<Rightarrow> string" where
  "escape_char c =
     (if c = CHR ''&'' then ''&amp;''
      else if c = CHR ''<'' then ''&lt;''
      else if c = CHR ''>'' then ''&gt;''
      else [c])"

definition escape :: "string \<Rightarrow> string" where
  "escape s = concat (map escape_char s)"

text \<open>
  What the specification asks of escaped text: \<^verbatim>\<open><\<close> and \<^verbatim>\<open>>\<close> do not occur in it, and
  every \<^verbatim>\<open>&\<close> begins one of the three entities. \<open>unescape\<close> reads the entities back.
\<close>

fun markup_free :: "string \<Rightarrow> bool" where
  "markup_free [] = True"
| "markup_free (c # cs) =
     (if c = CHR ''&''
      then (prefix ''amp;'' cs \<or> prefix ''lt;'' cs \<or> prefix ''gt;'' cs) \<and> markup_free cs
      else c \<noteq> CHR ''<'' \<and> c \<noteq> CHR ''>'' \<and> markup_free cs)"

function unescape :: "string \<Rightarrow> string" where
  "unescape [] = []"
| "unescape (c # cs) =
     (if c = CHR ''&'' \<and> prefix ''amp;'' cs then CHR ''&'' # unescape (drop 4 cs)
      else if c = CHR ''&'' \<and> prefix ''lt;'' cs then CHR ''<'' # unescape (drop 3 cs)
      else if c = CHR ''&'' \<and> prefix ''gt;'' cs then CHR ''>'' # unescape (drop 3 cs)
      else c # unescape cs)"
  by pat_completeness auto
termination
  by (relation "measure length") auto

subsection \<open>The codes a render looks up\<close>







subsection \<open>Counting occurrences\<close>

text \<open>The number of places of a text at which a pattern begins.\<close>

fun count_sub :: "string \<Rightarrow> string \<Rightarrow> nat" where
  "count_sub pat [] = (if pat = [] then 1 else 0)"
| "count_sub pat (c # cs) = (if prefix pat (c # cs) then 1 else 0) + count_sub pat cs"

section \<open>Properties\<close>

subsection \<open>Loops, formatting and integers as text\<close>

lemma each_Inr_D:
  "each f xs = Inr ys \<Longrightarrow> list_all2 (\<lambda>x y. f x = Inr y) xs ys"
proof (induction xs arbitrary: ys)
  case Nil
  then show ?case by simp
next
  case (Cons x xs)
  from Cons.prems obtain y zs where "f x = Inr y" "each f xs = Inr zs" "ys = y # zs"
    by (auto split: sum.splits)
  with Cons.IH show ?case by simp
qed

lemma each_Inr_I:
  "list_all2 (\<lambda>x y. f x = Inr y) xs ys \<Longrightarrow> each f xs = Inr ys"
  by (induction xs ys rule: list_all2_induct) simp_all

lemma each_Inr_iff:
  "each f xs = Inr ys \<longleftrightarrow> list_all2 (\<lambda>x y. f x = Inr y) xs ys"
  using each_Inr_D each_Inr_I by blast



lemma each_Inr_length:
  "each f xs = Inr ys \<Longrightarrow> length ys = length xs"
  by (simp add: each_Inr_iff list_all2_lengthD)

lemma each_Inr_nth:
  "each f xs = Inr ys \<Longrightarrow> i < length xs \<Longrightarrow> f (xs ! i) = Inr (ys ! i)"
  by (auto simp: each_Inr_iff dest: list_all2_nthD)

lemma str_format_plain:
  "\<forall>c\<in>set pre. c \<noteq> CHR ''{'' \<and> c \<noteq> CHR ''}'' \<Longrightarrow>
   str_format (pre @ rest) args n = map_sum id ((@) pre) (str_format rest args n)"
proof (induction pre)
  case Nil
  show ?case by (cases "str_format rest args n") simp_all
next
  case (Cons c pre)
  then have c: "c \<noteq> CHR ''{''" "c \<noteq> CHR ''}''" by auto
  show ?case
  proof (cases "pre @ rest")
    case Nil
    then show ?thesis using c by simp
  next
    case tl: (Cons d ds)
    have "str_format (c # d # ds) args n = map_sum id ((#) c) (str_format (d # ds) args n)"
      using c by simp
    moreover have "str_format (d # ds) args n = map_sum id ((@) pre) (str_format rest args n)"
      using Cons.IH Cons.prems tl [symmetric] by (simp del: id_apply)
    ultimately show ?thesis using tl
      by (cases "str_format rest args n") simp_all
  qed
qed

lemma str_format_slot:
  assumes "\<forall>c\<in>set pre. c \<noteq> CHR ''{'' \<and> c \<noteq> CHR ''}''"
    and "\<forall>c\<in>set post. c \<noteq> CHR ''{'' \<and> c \<noteq> CHR ''}''"
  shows "str_format (pre @ ''{}'' @ post) [b] 0 = Inr (pre @ b @ post)"
proof -
  have "str_format (post @ []) [b] (Suc 0) = Inr post"
    using str_format_plain [OF assms(2), of "[]" "[b]" "Suc 0"] by simp
  then have "str_format (''{}'' @ post) [b] 0 = Inr (b @ post)"
    by simp
  then show ?thesis
    using str_format_plain [OF assms(1), of "''{}'' @ post" "[b]" 0] by simp
qed

lemma GROUP_MARKERS_iff:
  "c \<in> set GROUP_MARKERS \<longleftrightarrow> c = 0 \<or> c = 100 \<or> c = 102 \<or> c = 1001"
  by (auto simp: GROUP_MARKERS_def)

lemma digit_in: "k < 10 \<Longrightarrow> ''0123456789'' ! k \<in> set ''0123456789''"
  by (rule nth_mem) simp

lemma HANDLE_DEFINITIONS_iff:
  "c \<in> HANDLE_DEFINITIONS \<longleftrightarrow> c = 5 \<or> c = 105 \<or> (320 \<le> c \<and> c \<le> 329)"
  unfolding HANDLE_DEFINITIONS_def set_append set_upto
  by (simp only: list.set Un_iff insert_iff empty_iff atLeastAtMost_iff) blast

lemma HANDLE_LINKS_iff:
  "c \<in> HANDLE_LINKS \<longleftrightarrow> (330 \<le> c \<and> c \<le> 369) \<or> c = 480 \<or> c = 481 \<or> c = 1005"
  unfolding HANDLE_LINKS_def set_append set_upto
  by (simp only: list.set Un_iff insert_iff empty_iff atLeastAtMost_iff) blast

lemma str_nat_chars:
  assumes S: "\<And>k. k < 10 \<Longrightarrow> ''0123456789'' ! k \<in> S"
  shows "set (str_nat n) \<subseteq> S"
proof (induction n rule: str_nat.induct)
  case (1 n)
  show ?case
  proof (cases "n < 10")
    case True
    then have "str_nat n = [''0123456789'' ! n]"
      by (subst str_nat.simps) (simp only: if_True)
    then show ?thesis using S [OF True] by (simp only: list.set insert_subset empty_subsetI simp_thms)
  next
    case False
    then have "str_nat n = str_nat (n div 10) @ [''0123456789'' ! (n mod 10)]"
      by (subst str_nat.simps) (simp only: if_False)
    moreover have "n mod 10 < 10" by simp
    ultimately show ?thesis using S [of "n mod 10"] 1 [OF False]
      by (simp only: set_append list.set Un_subset_iff insert_subset empty_subsetI simp_thms)
  qed
qed


lemma str_nat_digits: "set (str_nat n) \<subseteq> set ''0123456789''"
  by (rule str_nat_chars) (rule digit_in)

lemma str_int_chars: "set (str_int i) \<subseteq> set ''-0123456789''"
proof -
  have sub: "set (str_nat n) \<subseteq> set (CHR ''-'' # ''0123456789'')" for n
    using str_nat_digits [of n] set_subset_Cons [of "''0123456789''" "CHR ''-''"]
    by (rule subset_trans)
  show ?thesis
  proof (cases "i < 0")
    case True
    then have "str_int i = CHR ''-'' # str_nat (nat (- i))"
      by (simp only: str_int_def if_True)
    then show ?thesis using sub [of "nat (- i)"]
      by (simp only: set_simps insert_subset insertI1 simp_thms)
  next
    case False
    then have "str_int i = str_nat (nat i)"
      by (simp only: str_int_def if_False)
    then show ?thesis using sub [of "nat i"] by (simp only:)
  qed
qed

lemma escape_simps [simp]:
  "escape [] = []"
  "escape (c # cs) = escape_char c @ escape cs"
  by (simp_all add: escape_def)

subsection \<open>Rows of the tag-stream renderer\<close>

lemma tag2html_Inr:
  "tag2html esc tt t = Inr h \<Longrightarrow>
   \<exists>ty. tag_type_str tt (tag.code t) = Inr ty \<and>
     h = (if tag.code t \<in> HANDLE_DEFINITIONS then TAG_TEMPLATE_HANDLE_DEF
          else if tag.code t \<in> HANDLE_LINKS then TAG_TEMPLATE_HANDLE_LINK
          else TAG_TEMPLATE) (str_int (tag.code t)) (esc ty) (esc (ustr (tag.value t)))"
  unfolding tag2html_def Let_def by (cases "tag_type_str tt (tag.code t)") auto


lemma tags2html_rows:
  assumes "tags2html esc tt ts = Inr out"
  shows \<open>\<exists>rows. length rows = length ts \<and>
           out = ''<div class="dxf-tags">\<newline>'' @ join ''\<newline>'' rows @ ''\<newline></div>'' \<and>
           (\<forall>i<length ts. \<exists>h. tag2html esc tt (ts ! i) = Inr h \<and>
                                rows ! i = group_marker (ts ! i) h)\<close>
proof -
  let ?f = "\<lambda>tag. map_sum id (group_marker tag) (tag2html esc tt tag)"
  from assms obtain rows where rows: "each ?f ts = Inr rows"
    and out: \<open>out = ''<div class="dxf-tags">\<newline>'' @ join ''\<newline>'' rows @ ''\<newline></div>''\<close>
    unfolding tags2html_def by (cases "each ?f ts") auto
  have len: "length rows = length ts"
    using rows by (rule each_Inr_length)
  have "\<exists>h. tag2html esc tt (ts ! i) = Inr h \<and> rows ! i = group_marker (ts ! i) h"
    if "i < length ts" for i
  proof -
    have "?f (ts ! i) = Inr (rows ! i)"
      using rows that by (rule each_Inr_nth)
    then show ?thesis
      by (cases "tag2html esc tt (ts ! i)") auto
  qed
  with len out show ?thesis by blast
qed

lemma handle_not_marker:
  "c \<in> HANDLE_DEFINITIONS \<or> c \<in> HANDLE_LINKS \<Longrightarrow> c \<notin> set GROUP_MARKERS"
  unfolding HANDLE_DEFINITIONS_iff HANDLE_LINKS_iff GROUP_MARKERS_iff by arith

lemma handle_disjoint:
  "c \<in> HANDLE_DEFINITIONS \<Longrightarrow> c \<notin> HANDLE_LINKS"
  unfolding HANDLE_DEFINITIONS_iff HANDLE_LINKS_iff by arith

text \<open>
  C1. When \<open>tags2html\<close> returns, its output is the container around one row per tag
  record, in order. The row of a record whose code is a handle definition carries
  \<^verbatim>\<open>id="v"\<close> where \<open>v\<close> is the escaped value; the row of a record whose code is a
  handle link is a hyperlink to \<^verbatim>\<open>#v\<close> with \<open>v\<close> as its text; every other record has
  the plain row of code, type label and escaped value (inside the marker container
  when its code is a group marker).
\<close>

theorem handle_rows:
  assumes "tags2html esc tt ts = Inr out"
  shows \<open>\<exists>rows. length rows = length ts \<and>
     out = ''<div class="dxf-tags">\<newline>'' @ join ''\<newline>'' rows @ ''\<newline></div>'' \<and>
     (\<forall>i<length ts. \<exists>ty. tag_type_str tt (tag.code (ts ! i)) = Inr ty \<and>
        (let c = str_int (tag.code (ts ! i)); t = esc ty; v = esc (ustr (tag.value (ts ! i)));
             plain = ''<div class="dxf-tag"><span class="tag-code">'' @ c
                     @ ''</span> <span class="var-type">'' @ t
                     @ ''</span> <span class="tag-value">'' @ v @ ''</span></div>''
         in (tag.code (ts ! i) \<in> HANDLE_DEFINITIONS \<longrightarrow>
               rows ! i = ''<div class="dxf-tag"><span id="'' @ v @ ''" class="tag-code">'' @ c
                          @ ''</span> <span class="var-type">'' @ t
                          @ ''</span> <span class="tag-value">'' @ v @ ''</span></div>'') \<and>
            (tag.code (ts ! i) \<in> HANDLE_LINKS \<longrightarrow>
               rows ! i = ''<div class="dxf-tag"><span class="tag-code">'' @ c @ '' '' @ t
                          @ ''</span> <a class="tag-value" href="#'' @ v @ ''">'' @ v
                          @ ''</a></div>'') \<and>
            (tag.code (ts ! i) \<notin> HANDLE_DEFINITIONS \<and> tag.code (ts ! i) \<notin> HANDLE_LINKS \<longrightarrow>
               rows ! i = (if tag.code (ts ! i) \<in> set GROUP_MARKERS
                           then ''<div class="tag-group-marker">'' @ plain @ ''</div>''
                           else plain))))\<close>
proof -
  from tags2html_rows [OF assms] obtain rows where len: "length rows = length ts"
    and out: \<open>out = ''<div class="dxf-tags">\<newline>'' @ join ''\<newline>'' rows @ ''\<newline></div>''\<close>
    and row: "\<And>i. i < length ts \<Longrightarrow>
                \<exists>h. tag2html esc tt (ts ! i) = Inr h \<and> rows ! i = group_marker (ts ! i) h"
    by blast
  have \<open>\<exists>ty. tag_type_str tt (tag.code (ts ! i)) = Inr ty \<and>
        (let c = str_int (tag.code (ts ! i)); t = esc ty; v = esc (ustr (tag.value (ts ! i)));
             plain = ''<div class="dxf-tag"><span class="tag-code">'' @ c
                     @ ''</span> <span class="var-type">'' @ t
                     @ ''</span> <span class="tag-value">'' @ v @ ''</span></div>''
         in (tag.code (ts ! i) \<in> HANDLE_DEFINITIONS \<longrightarrow>
               rows ! i = ''<div class="dxf-tag"><span id="'' @ v @ ''" class="tag-code">'' @ c
                          @ ''</span> <span class="var-type">'' @ t
                          @ ''</span> <span class="tag-value">'' @ v @ ''</span></div>'') \<and>
            (tag.code (ts ! i) \<in> HANDLE_LINKS \<longrightarrow>
               rows ! i = ''<div class="dxf-tag"><span class="tag-code">'' @ c @ '' '' @ t
                          @ ''</span> <a class="tag-value" href="#'' @ v @ ''">'' @ v
                          @ ''</a></div>'') \<and>
            (tag.code (ts ! i) \<notin> HANDLE_DEFINITIONS \<and> tag.code (ts ! i) \<notin> HANDLE_LINKS \<longrightarrow>
               rows ! i = (if tag.code (ts ! i) \<in> set GROUP_MARKERS
                           then ''<div class="tag-group-marker">'' @ plain @ ''</div>''
                           else plain)))\<close> if i: "i < length ts" for i
  proof -
    from row [OF i] obtain h where h: "tag2html esc tt (ts ! i) = Inr h"
      and r: "rows ! i = group_marker (ts ! i) h" by blast
    from tag2html_Inr [OF h] obtain ty where ty: "tag_type_str tt (tag.code (ts ! i)) = Inr ty"
      and hh: "h = (if tag.code (ts ! i) \<in> HANDLE_DEFINITIONS then TAG_TEMPLATE_HANDLE_DEF
          else if tag.code (ts ! i) \<in> HANDLE_LINKS then TAG_TEMPLATE_HANDLE_LINK
          else TAG_TEMPLATE) (str_int (tag.code (ts ! i))) (esc ty) (esc (ustr (tag.value (ts ! i))))"
      by blast
    show ?thesis
      using ty r hh handle_not_marker [of "tag.code (ts ! i)"] handle_disjoint [of "tag.code (ts ! i)"]
      by (auto simp: group_marker_def Let_def TAG_TEMPLATE_def TAG_TEMPLATE_HANDLE_DEF_def
            TAG_TEMPLATE_HANDLE_LINK_def MARKER_TEMPLATE_def)
  qed
  with len out show ?thesis by blast
qed

theorem handle_rows_witness:
  \<open>\<exists>rows. length rows = 2 \<and>
     tags2html escape (\<lambda>c. Inr T_ustr)
       [\<lparr>tag.code = 5, value = StrV ''2A''\<rparr>, \<lparr>tag.code = 330, value = StrV ''1F''\<rparr>]
       = Inr (''<div class="dxf-tags">\<newline>'' @ join ''\<newline>'' rows @ ''\<newline></div>'') \<and>
     rows ! 0 = ''<div class="dxf-tag"><span id="2A" class="tag-code">5</span> <span class="var-type">&lt;str&gt;</span> <span class="tag-value">2A</span></div>'' \<and>
     rows ! 1 = ''<div class="dxf-tag"><span class="tag-code">330 &lt;str&gt;</span> <a class="tag-value" href="#1F">1F</a></div>''\<close>
proof -
  let ?ts = "[\<lparr>tag.code = 5, value = StrV ''2A''\<rparr>, \<lparr>tag.code = 330, value = StrV ''1F''\<rparr>]"
  let ?tt = "\<lambda>c::int. (Inr T_ustr :: error + pytype)"
  have ty: "tag_type_str ?tt c = Inr ''<str>''" for c
    by (simp add: tag_type_str_def TAG_TYPES_def)
  have "\<exists>out. tags2html escape ?tt ?ts = Inr out"
    by (simp add: tags2html_def tag2html_def ty)
  then obtain out where out: "tags2html escape ?tt ?ts = Inr out" ..
  from handle_rows [OF out] obtain rows where len: "length rows = length ?ts"
    and o: \<open>out = ''<div class="dxf-tags">\<newline>'' @ join ''\<newline>'' rows @ ''\<newline></div>''\<close>
    and r: \<open>\<forall>i<length ?ts. \<exists>ty. tag_type_str ?tt (tag.code (?ts ! i)) = Inr ty \<and>
        (let c = str_int (tag.code (?ts ! i)); t = escape ty; v = escape (ustr (tag.value (?ts ! i)));
             plain = ''<div class="dxf-tag"><span class="tag-code">'' @ c
                     @ ''</span> <span class="var-type">'' @ t
                     @ ''</span> <span class="tag-value">'' @ v @ ''</span></div>''
         in (tag.code (?ts ! i) \<in> HANDLE_DEFINITIONS \<longrightarrow>
               rows ! i = ''<div class="dxf-tag"><span id="'' @ v @ ''" class="tag-code">'' @ c
                          @ ''</span> <span class="var-type">'' @ t
                          @ ''</span> <span class="tag-value">'' @ v @ ''</span></div>'') \<and>
            (tag.code (?ts ! i) \<in> HANDLE_LINKS \<longrightarrow>
               rows ! i = ''<div class="dxf-tag"><span class="tag-code">'' @ c @ '' '' @ t
                          @ ''</span> <a class="tag-value" href="#'' @ v @ ''">'' @ v
                          @ ''</a></div>'') \<and>
            (tag.code (?ts ! i) \<notin> HANDLE_DEFINITIONS \<and> tag.code (?ts ! i) \<notin> HANDLE_LINKS \<longrightarrow>
               rows ! i = (if tag.code (?ts ! i) \<in> set GROUP_MARKERS
                           then ''<div class="tag-group-marker">'' @ plain @ ''</div>''
                           else plain)))\<close>
    by blast
  have s5: "str_int 5 = ''5''" and s330: "str_int 330 = ''330''"
    by (simp_all add: str_int_def str_nat.simps)
  from r [rule_format, of 0] have r0: \<open>rows ! 0 = ''<div class="dxf-tag"><span id="2A" class="tag-code">5</span> <span class="var-type">&lt;str&gt;</span> <span class="tag-value">2A</span></div>''\<close>
    by (simp add: ty HANDLE_DEFINITIONS_iff s5 escape_char_def)
  from r [rule_format, of 1] have r1: \<open>rows ! 1 = ''<div class="dxf-tag"><span class="tag-code">330 &lt;str&gt;</span> <a class="tag-value" href="#1F">1F</a></div>''\<close>
    by (simp add: ty HANDLE_LINKS_iff s330 escape_char_def)
  from len out o r0 r1 show ?thesis by (intro exI [of _ rows]) simp
qed

lemma list_all2_choose:
  "list_all2 (\<lambda>x r. \<exists>h. P x h \<and> r = g x h) xs rs \<Longrightarrow>
   \<exists>hs. list_all2 P xs hs \<and> rs = map2 g xs hs"
proof (induction xs arbitrary: rs)
  case Nil
  then show ?case by simp
next
  case (Cons x xs)
  from Cons.prems obtain r rs' where rs: "rs = r # rs'"
    and hd: "\<exists>h. P x h \<and> r = g x h"
    and tl: "list_all2 (\<lambda>x r. \<exists>h. P x h \<and> r = g x h) xs rs'"
    by (cases rs) simp_all
  from hd obtain h where h: "P x h" "r = g x h" by (elim exE conjE)
  from Cons.IH [OF tl] obtain hs where hs: "list_all2 P xs hs" "rs' = map2 g xs hs"
    by (elim exE conjE)
  have "list_all2 P (x # xs) (h # hs) \<and> rs = map2 g (x # xs) (h # hs)"
    using h hs rs by simp
  then show ?case by (rule exI)
qed

lemma tag2html_prefix:
  assumes "tag2html esc tt t = Inr h"
  shows \<open>prefix ''<div class="dxf-tag">'' h\<close>
proof -
  from tag2html_Inr [OF assms] obtain ty where
    h: "h = (if tag.code t \<in> HANDLE_DEFINITIONS then TAG_TEMPLATE_HANDLE_DEF
          else if tag.code t \<in> HANDLE_LINKS then TAG_TEMPLATE_HANDLE_LINK
          else TAG_TEMPLATE) (str_int (tag.code t)) (esc ty) (esc (ustr (tag.value t)))"
    by blast
  have \<open>\<exists>rest. h = ''<div class="dxf-tag">'' @ rest\<close>
    unfolding h
    by (simp add: TAG_TEMPLATE_def TAG_TEMPLATE_HANDLE_DEF_def TAG_TEMPLATE_HANDLE_LINK_def)
  then show ?thesis by (elim exE) (erule prefixI)
qed

text \<open>
  C3. When \<open>tags2html\<close> returns, there is one row per tag record, in the order of the
  records. The row of a record whose code is 0, 100, 102 or 1001 stands alone inside one
  marker container; the row of every other record stands as it is, and no row begins
  with a marker container of its own. The rows are joined by newlines, so a marker
  container never holds more than the one row.
\<close>

theorem group_marker_rows:
  assumes "tags2html esc tt ts = Inr out"
  shows \<open>\<exists>hs. length hs = length ts \<and>
     (\<forall>i<length ts. tag2html esc tt (ts ! i) = Inr (hs ! i) \<and>
                     prefix ''<div class="dxf-tag">'' (hs ! i)) \<and>
     out = ''<div class="dxf-tags">\<newline>''
           @ join ''\<newline>''
               (map2 (\<lambda>t h. if tag.code t = 0 \<or> tag.code t = 100 \<or> tag.code t = 102
                                \<or> tag.code t = 1001
                             then ''<div class="tag-group-marker">'' @ h @ ''</div>''
                             else h) ts hs)
           @ ''\<newline></div>''\<close>
proof -
  let ?f = "\<lambda>tag. map_sum id (group_marker tag) (tag2html esc tt tag)"
  let ?g = \<open>\<lambda>t h. if tag.code t = 0 \<or> tag.code t = 100 \<or> tag.code t = 102 \<or> tag.code t = 1001
                   then ''<div class="tag-group-marker">'' @ h @ ''</div>'' else h\<close>
  from assms obtain rows where rows: "each ?f ts = Inr rows"
    and out: \<open>out = ''<div class="dxf-tags">\<newline>'' @ join ''\<newline>'' rows @ ''\<newline></div>''\<close>
    unfolding tags2html_def by (cases "each ?f ts") auto
  have g: "group_marker t h = ?g t h" for t h
    by (simp add: group_marker_def MARKER_TEMPLATE_def GROUP_MARKERS_iff)
  from rows have "list_all2 (\<lambda>t r. ?f t = Inr r) ts rows"
    by (rule each_Inr_D)
  then have "list_all2 (\<lambda>t r. \<exists>h. tag2html esc tt t = Inr h \<and> r = ?g t h) ts rows"
  proof (rule list_all2_mono)
    fix t r assume "?f t = Inr r"
    then show "\<exists>h. tag2html esc tt t = Inr h \<and> r = ?g t h"
      by (cases "tag2html esc tt t") (auto simp: g)
  qed
  from list_all2_choose [OF this] obtain hs
    where hs: "list_all2 (\<lambda>t h. tag2html esc tt t = Inr h) ts hs" and r: "rows = map2 ?g ts hs"
    by blast
  have len: "length hs = length ts"
    using hs by (simp add: list_all2_lengthD)
  have nth: "tag2html esc tt (ts ! i) = Inr (hs ! i) \<and> prefix ''<div class=\"dxf-tag\">'' (hs ! i)"
    if "i < length ts" for i
  proof -
    have "tag2html esc tt (ts ! i) = Inr (hs ! i)"
      using hs that by (rule list_all2_nthD)
    then show ?thesis using tag2html_prefix by blast
  qed
  show ?thesis
    using len nth out r by (intro exI [of _ hs]) simp
qed

theorem group_marker_rows_witness:
  \<open>\<exists>hs. length hs = 2 \<and>
     tag2html escape (\<lambda>c. Inr T_ustr) \<lparr>tag.code = 100, value = StrV ''AcDbLine''\<rparr> = Inr (hs ! 0) \<and>
     tag2html escape (\<lambda>c. Inr T_ustr) \<lparr>tag.code = 8, value = StrV ''0''\<rparr> = Inr (hs ! 1) \<and>
     tags2html escape (\<lambda>c. Inr T_ustr)
       [\<lparr>tag.code = 100, value = StrV ''AcDbLine''\<rparr>, \<lparr>tag.code = 8, value = StrV ''0''\<rparr>]
     = Inr (''<div class="dxf-tags">\<newline><div class="tag-group-marker">'' @ hs ! 0
            @ ''</div>\<newline>'' @ hs ! 1 @ ''\<newline></div>'')\<close>
proof -
  let ?ts = "[\<lparr>tag.code = 100, value = StrV ''AcDbLine''\<rparr>, \<lparr>tag.code = 8, value = StrV ''0''\<rparr>]"
  let ?tt = "\<lambda>c::int. (Inr T_ustr :: error + pytype)"
  have ty: "tag_type_str ?tt c = Inr ''<str>''" for c
    by (simp add: tag_type_str_def TAG_TYPES_def)
  have "\<exists>out. tags2html escape ?tt ?ts = Inr out"
    by (simp add: tags2html_def tag2html_def ty)
  then obtain out where out: "tags2html escape ?tt ?ts = Inr out" ..
  from group_marker_rows [OF out] obtain hs where len: "length hs = length ?ts"
    and nth: "\<forall>i<length ?ts. tag2html escape ?tt (?ts ! i) = Inr (hs ! i) \<and>
                     prefix ''<div class=\"dxf-tag\">'' (hs ! i)"
    and o: \<open>out = ''<div class="dxf-tags">\<newline>''
           @ join ''\<newline>''
               (map2 (\<lambda>t h. if tag.code t = 0 \<or> tag.code t = 100 \<or> tag.code t = 102
                                \<or> tag.code t = 1001
                             then ''<div class="tag-group-marker">'' @ h @ ''</div>''
                             else h) ?ts hs)
           @ ''\<newline></div>''\<close>
    by blast
  from len obtain h0 h1 where hs: "hs = [h0, h1]"
    by (cases hs; cases "tl hs") auto
  from nth [rule_format, of 0] nth [rule_format, of 1] out o hs show ?thesis
    by (intro exI [of _ hs]) simp
qed

subsection \<open>Escaping\<close>

lemma markup_free_escape_char:
  "markup_free (escape_char c @ rest) = markup_free rest"
  by (simp add: escape_char_def)

lemma markup_free_escape: "markup_free (escape s)"
  by (induction s) (simp_all add: markup_free_escape_char del: markup_free.simps(2))

lemma unescape_escape_char:
  "unescape (escape_char c @ rest) = c # unescape rest"
  by (simp add: escape_char_def)

lemma unescape_escape: "unescape (escape s) = s"
  by (induction s) (simp_all add: unescape_escape_char del: unescape.simps(2))

lemma escape_plain:
  "CHR ''&'' \<notin> set s \<Longrightarrow> CHR ''<'' \<notin> set s \<Longrightarrow> CHR ''>'' \<notin> set s \<Longrightarrow> escape s = s"
  by (induction s) (auto simp: escape_char_def)

lemma escape_str_int: "escape (str_int i) = str_int i"
proof (rule escape_plain)
  show "CHR ''&'' \<notin> set (str_int i)" using str_int_chars [of i] by (rule contra_subsetD) simp
  show "CHR ''<'' \<notin> set (str_int i)" using str_int_chars [of i] by (rule contra_subsetD) simp
  show "CHR ''>'' \<notin> set (str_int i)" using str_int_chars [of i] by (rule contra_subsetD) simp
qed

lemma sublist_between: "sublist xs ys \<Longrightarrow> sublist xs (ps @ ys @ ss)"
proof -
  assume "sublist xs ys"
  then obtain p s where "ys = p @ xs @ s" unfolding sublist_def by (elim exE)
  then have "ps @ ys @ ss = (ps @ p) @ xs @ (s @ ss)" by simp
  then show ?thesis unfolding sublist_def by (intro exI)
qed

lemma sublist_join: "r \<in> set rows \<Longrightarrow> sublist r (join sep rows)"
proof (induction sep rows rule: join.induct)
  case (1 sep)
  then show ?case by simp
next
  case (2 sep x)
  then show ?case by simp
next
  case (3 sep x y ys)
  show ?case
  proof (cases "r = x")
    case True
    then show ?thesis using sublist_appendI [of x "[]" "sep @ join sep (y # ys)"] by simp
  next
    case False
    with 3 have "sublist r (join sep (y # ys))" by simp
    then have "sublist r ((x @ sep) @ join sep (y # ys) @ [])" by (rule sublist_between)
    then show ?thesis by simp
  qed
qed

lemma sublist_group_marker: "sublist h (group_marker t h)"
  using sublist_appendI [of h "''<div class=\"tag-group-marker\">''" "''</div>''"]
  by (simp add: group_marker_def MARKER_TEMPLATE_def)

text \<open>
  C2. In every row of the tag stream the value is inserted as \<open>escape (ustr value)\<close> and
  the type label as \<open>escape label\<close>. The code is inserted as its decimal text, which
  the source does not pass through \<open>escape\<close>; that text is equal to its own escaped form.
  The escaped value holds no \<^verbatim>\<open><\<close> and no \<^verbatim>\<open>>\<close>, every \<^verbatim>\<open>&\<close> in it begins an entity,
  and reading the entities back gives the value's text again.
\<close>

theorem values_escaped:
  assumes "tags2html escape tt ts = Inr out" and "i < length ts"
  shows "\<exists>ty row. tag_type_str tt (tag.code (ts ! i)) = Inr ty \<and>
     tag2html escape tt (ts ! i) = Inr row \<and> sublist row out \<and>
     row = (if tag.code (ts ! i) \<in> HANDLE_DEFINITIONS then TAG_TEMPLATE_HANDLE_DEF
            else if tag.code (ts ! i) \<in> HANDLE_LINKS then TAG_TEMPLATE_HANDLE_LINK
            else TAG_TEMPLATE)
             (escape (str_int (tag.code (ts ! i)))) (escape ty)
             (escape (ustr (tag.value (ts ! i)))) \<and>
     markup_free (escape (ustr (tag.value (ts ! i)))) \<and>
     unescape (escape (ustr (tag.value (ts ! i)))) = ustr (tag.value (ts ! i)) \<and>
     markup_free (escape ty) \<and>
     markup_free (escape (str_int (tag.code (ts ! i))))"
proof -
  from tags2html_rows [OF assms(1)] obtain rows where len: "length rows = length ts"
    and out: \<open>out = ''<div class="dxf-tags">\<newline>'' @ join ''\<newline>'' rows @ ''\<newline></div>''\<close>
    and row: "\<forall>i<length ts. \<exists>h. tag2html escape tt (ts ! i) = Inr h \<and>
                rows ! i = group_marker (ts ! i) h"
    by (elim exE conjE)
  from row assms(2) obtain h where h: "tag2html escape tt (ts ! i) = Inr h"
    and r: "rows ! i = group_marker (ts ! i) h" by blast
  from tag2html_Inr [OF h] obtain ty where ty: "tag_type_str tt (tag.code (ts ! i)) = Inr ty"
    and hh: "h = (if tag.code (ts ! i) \<in> HANDLE_DEFINITIONS then TAG_TEMPLATE_HANDLE_DEF
          else if tag.code (ts ! i) \<in> HANDLE_LINKS then TAG_TEMPLATE_HANDLE_LINK
          else TAG_TEMPLATE) (str_int (tag.code (ts ! i))) (escape ty)
            (escape (ustr (tag.value (ts ! i))))"
    by (elim exE conjE)
  have "rows ! i \<in> set rows" using assms(2) len by simp
  then have "sublist (rows ! i) (join ''\<newline>'' rows)" by (rule sublist_join)
  with r have "sublist (group_marker (ts ! i) h) (join ''\<newline>'' rows)" by simp
  then have "sublist (group_marker (ts ! i) h) out"
    unfolding out by (rule sublist_between)
  then obtain p s where "out = p @ group_marker (ts ! i) h @ s"
    unfolding sublist_def by (elim exE)
  moreover have "sublist h (p @ group_marker (ts ! i) h @ s)"
    using sublist_group_marker by (rule sublist_between)
  ultimately have sub: "sublist h out" by simp
  have "h = (if tag.code (ts ! i) \<in> HANDLE_DEFINITIONS then TAG_TEMPLATE_HANDLE_DEF
          else if tag.code (ts ! i) \<in> HANDLE_LINKS then TAG_TEMPLATE_HANDLE_LINK
          else TAG_TEMPLATE) (escape (str_int (tag.code (ts ! i)))) (escape ty)
            (escape (ustr (tag.value (ts ! i))))"
    using hh by (simp only: escape_str_int)
  then show ?thesis
    by (intro exI [of _ ty] exI [of _ h] conjI ty h sub markup_free_escape unescape_escape)
qed

theorem values_escaped_witness:
  \<open>tag2html escape (\<lambda>c. Inr T_ustr) \<lparr>tag.code = 1, value = StrV ''<a&b>''\<rparr>
     = Inr ''<div class="dxf-tag"><span class="tag-code">1</span> <span class="var-type">&lt;str&gt;</span> <span class="tag-value">&lt;a&amp;b&gt;</span></div>'' \<and>
   escape ''<a&b>'' = ''&lt;a&amp;b&gt;'' \<and>
   markup_free ''&lt;a&amp;b&gt;'' \<and>
   unescape ''&lt;a&amp;b&gt;'' = ''<a&b>''\<close>
proof -
  let ?t = "\<lparr>tag.code = 1, value = StrV ''<a&b>''\<rparr>"
  let ?tt = "\<lambda>c::int. (Inr T_ustr :: error + pytype)"
  have ty: "tag_type_str ?tt c = Inr ''<str>''" for c
    by (simp add: tag_type_str_def TAG_TYPES_def)
  have "\<exists>out. tags2html escape ?tt [?t] = Inr out"
    by (simp add: tags2html_def tag2html_def ty)
  then obtain out where out: "tags2html escape ?tt [?t] = Inr out" ..
  have e: "escape ''<a&b>'' = ''&lt;a&amp;b&gt;''"
    by (simp add: escape_char_def)
  have s1: "str_int 1 = ''1''"
    by (simp add: str_int_def str_nat.simps)
  from values_escaped [OF out, of 0] show ?thesis
    by (simp add: ty e s1 HANDLE_DEFINITIONS_iff HANDLE_LINKS_iff TAG_TEMPLATE_def escape_char_def)
qed

subsection \<open>Sections and the table of contents\<close>

lemma braceless_str_int:
  "c \<in> set (str_int i) \<Longrightarrow> c \<noteq> CHR ''{'' \<and> c \<noteq> CHR ''}''"
proof -
  assume "c \<in> set (str_int i)"
  then have "c \<in> set ''-0123456789''" using str_int_chars [of i] by (rule rev_subsetD)
  then show ?thesis by (simp only: list.set insert_iff empty_iff) (elim disjE; simp)
qed

lemma braceless_SECTION_ID:
  "c \<in> set (SECTION_ID i) \<Longrightarrow> c \<noteq> CHR ''{'' \<and> c \<noteq> CHR ''}''"
proof -
  assume "c \<in> set (SECTION_ID i)"
  then have "c \<in> set ''section_'' \<or> c \<in> set (str_int i)"
    by (simp only: SECTION_ID_def set_append Un_iff)
  then show ?thesis
  proof
    assume "c \<in> set ''section_''"
    then show ?thesis by (simp only: list.set insert_iff empty_iff) (elim disjE; simp)
  next
    assume "c \<in> set (str_int i)"
    then show ?thesis by (rule braceless_str_int)
  qed
qed

lemma and_then_Inr:
  "and_then r f = Inr y \<Longrightarrow> \<exists>x. r = Inr x \<and> f x = Inr y"
  by (cases r) (simp_all add: and_then_def)

lemma section2html_Inr:
  "section2html esc tt s tpl = Inr w \<Longrightarrow> \<exists>b. str_format tpl [b] 0 = Inr w"
  unfolding section2html_def
  by (auto split: if_splits dest!: and_then_Inr)

lemma str_format_plain_prefix:
  assumes "\<forall>c\<in>set pre. c \<noteq> CHR ''{'' \<and> c \<noteq> CHR ''}''"
    and "str_format (pre @ rest) args n = Inr w"
  shows "prefix pre w"
proof -
  from assms(2) have "map_sum id ((@) pre) (str_format rest args n) = Inr w"
    by (simp only: str_format_plain [OF assms(1)])
  then obtain w' where "w = pre @ w'"
    by (cases "str_format rest args n") auto
  then show ?thesis by (simp only: prefixI)
qed

lemma sections2html_wrapped:
  assumes "sections2html esc tt dwg = Inr out"
  shows \<open>\<exists>wrapped. length wrapped = length (sections dwg) \<and>
     out = ''<div class="dxf-sections">\<newline>'' @ join ''\<newline>'' wrapped @ ''\<newline></div>'' \<and>
     (\<forall>i<length (sections dwg).
        section2html esc tt (sections dwg ! i)
          (create_section_html_template (dxf_section.name (sections dwg ! i)) (int i))
        = Inr (wrapped ! i))\<close>
proof -
  let ?f = "\<lambda>(index, s). section2html esc tt s
              (create_section_html_template (dxf_section.name s) (int index))"
  from assms obtain wrapped where w: "each ?f (enumerate 0 (sections dwg)) = Inr wrapped"
    and out: \<open>out = ''<div class="dxf-sections">\<newline>'' @ join ''\<newline>'' wrapped @ ''\<newline></div>''\<close>
    unfolding sections2html_def by (cases "each ?f (enumerate 0 (sections dwg))") auto
  have len: "length wrapped = length (sections dwg)"
    using each_Inr_length [OF w] by simp
  have "section2html esc tt (sections dwg ! i)
          (create_section_html_template (dxf_section.name (sections dwg ! i)) (int i))
        = Inr (wrapped ! i)" if "i < length (sections dwg)" for i
    using each_Inr_nth [OF w, of i] that by (simp add: nth_enumerate_eq)
  with len out show ?thesis by (intro exI [of _ wrapped]) simp
qed

lemma wrapper_anchor:
  assumes "section2html esc tt s (create_section_html_template nm i) = Inr w"
  shows \<open>prefix (''<div id="section_'' @ str_int i @ ''"'') w\<close>
proof -
  let ?pre = \<open>''<div id="section_'' @ str_int i @ ''"''\<close>
  obtain rest where tpl: "create_section_html_template nm i = ?pre @ rest"
    by (simp add: create_section_html_template_def SECTION_ID_def Let_def)
  have bl: "\<forall>c\<in>set ?pre. c \<noteq> CHR ''{'' \<and> c \<noteq> CHR ''}''"
    using braceless_str_int [of _ i] by auto
  from section2html_Inr [OF assms] obtain b
    where "str_format (create_section_html_template nm i) [b] 0 = Inr w" ..
  then have "str_format (?pre @ rest) [b] 0 = Inr w" by (simp only: tpl)
  with bl show ?thesis by (rule str_format_plain_prefix)
qed

text \<open>
  C4. The table of contents is the list container around one entry per section, in the
  order of the sections. Entry \<open>i\<close> links to \<^verbatim>\<open>#section_i\<close> and shows the section's name
  in upper case. When the sections render, wrapper \<open>i\<close> of the page begins with
  \<^verbatim>\<open><div id="section_i"\<close>, the anchor that entry \<open>i\<close> points to.
\<close>

theorem toc_entries:
  \<open>(\<exists>entries. length entries = length (sections dwg) \<and>
      sections_toc_as_html dwg
        = ''<h2>Table of Contents</h2>\<newline><ul>\<newline>'' @ join ''\<newline>'' entries @ ''\<newline></ul>'' \<and>
      (\<forall>i<length (sections dwg).
         entries ! i = ''<li><a href="#section_'' @ str_int (int i) @ ''" >''
                       @ upper (dxf_section.name (sections dwg ! i)) @ ''</a></li>'')) \<and>
   (\<forall>esc tt out. sections2html esc tt dwg = Inr out \<longrightarrow>
      (\<exists>wrapped. length wrapped = length (sections dwg) \<and>
         out = ''<div class="dxf-sections">\<newline>'' @ join ''\<newline>'' wrapped @ ''\<newline></div>'' \<and>
         (\<forall>i<length (sections dwg).
            prefix (''<div id="section_'' @ str_int (int i) @ ''"'') (wrapped ! i))))\<close>
proof (intro conjI allI impI)
  let ?f = "\<lambda>(index, s). TOC_ENTRY_TPL (SECTION_ID (int index)) (upper (dxf_section.name s))"
  let ?entries = "map ?f (enumerate 0 (sections dwg))"
  have "length ?entries = length (sections dwg)" by simp
  moreover have \<open>sections_toc_as_html dwg
        = ''<h2>Table of Contents</h2>\<newline><ul>\<newline>'' @ join ''\<newline>'' ?entries @ ''\<newline></ul>''\<close>
    by (simp add: sections_toc_as_html_def TOC_TPL_def)
  moreover have \<open>?entries ! i = ''<li><a href="#section_'' @ str_int (int i) @ ''" >''
                       @ upper (dxf_section.name (sections dwg ! i)) @ ''</a></li>''\<close>
    if "i < length (sections dwg)" for i
    using that by (simp add: nth_enumerate_eq TOC_ENTRY_TPL_def SECTION_ID_def)
  ultimately show \<open>\<exists>entries. length entries = length (sections dwg) \<and>
      sections_toc_as_html dwg
        = ''<h2>Table of Contents</h2>\<newline><ul>\<newline>'' @ join ''\<newline>'' entries @ ''\<newline></ul>'' \<and>
      (\<forall>i<length (sections dwg).
         entries ! i = ''<li><a href="#section_'' @ str_int (int i) @ ''" >''
                       @ upper (dxf_section.name (sections dwg ! i)) @ ''</a></li>'')\<close>
    by (intro exI [of _ ?entries] conjI allI impI)
next
  fix esc tt out
  assume "sections2html esc tt dwg = Inr out"
  from sections2html_wrapped [OF this] obtain wrapped
    where len: "length wrapped = length (sections dwg)"
      and out: \<open>out = ''<div class="dxf-sections">\<newline>'' @ join ''\<newline>'' wrapped @ ''\<newline></div>''\<close>
      and w: "\<forall>i<length (sections dwg).
        section2html esc tt (sections dwg ! i)
          (create_section_html_template (dxf_section.name (sections dwg ! i)) (int i))
        = Inr (wrapped ! i)"
    by (elim exE conjE)
  have \<open>prefix (''<div id="section_'' @ str_int (int i) @ ''"'') (wrapped ! i)\<close>
    if "i < length (sections dwg)" for i
    using w that wrapper_anchor by blast
  with len out show \<open>\<exists>wrapped. length wrapped = length (sections dwg) \<and>
         out = ''<div class="dxf-sections">\<newline>'' @ join ''\<newline>'' wrapped @ ''\<newline></div>'' \<and>
         (\<forall>i<length (sections dwg).
            prefix (''<div id="section_'' @ str_int (int i) @ ''"'') (wrapped ! i))\<close>
    by (intro exI [of _ wrapped] conjI allI impI)
qed

theorem toc_entries_witness:
  \<open>sections_toc_as_html
      \<lparr>filename = None,
       sections = [\<lparr>dxf_section.name = ''header'', body = HdrVars []\<rparr>,
                   \<lparr>dxf_section.name = ''entities'', body = Entities []\<rparr>]\<rparr>
     = ''<h2>Table of Contents</h2>\<newline><ul>\<newline><li><a href="#section_0" >HEADER</a></li>\<newline><li><a href="#section_1" >ENTITIES</a></li>\<newline></ul>'' \<and>
   (\<exists>wrapped. length wrapped = 2 \<and>
      sections2html escape (\<lambda>c. Inr T_ustr)
        \<lparr>filename = None,
         sections = [\<lparr>dxf_section.name = ''header'', body = HdrVars []\<rparr>,
                     \<lparr>dxf_section.name = ''entities'', body = Entities []\<rparr>]\<rparr>
      = Inr (''<div class="dxf-sections">\<newline>'' @ wrapped ! 0 @ ''\<newline>'' @ wrapped ! 1 @ ''\<newline></div>'') \<and>
      prefix ''<div id="section_0"'' (wrapped ! 0) \<and>
      prefix ''<div id="section_1"'' (wrapped ! 1))\<close>
proof -
  let ?D = "\<lparr>filename = None,
       sections = [\<lparr>dxf_section.name = ''header'', body = HdrVars []\<rparr>,
                   \<lparr>dxf_section.name = ''entities'', body = Entities []\<rparr>]\<rparr>"
  let ?tt = "\<lambda>c::int. (Inr T_ustr :: error + pytype)"
  have s0: "str_int 0 = ''0''" and s1: "str_int 1 = ''1''"
    by (simp_all add: str_int_def str_nat.simps)
  from toc_entries [of ?D, THEN conjunct1] obtain entries
    where "length entries = length (sections ?D)"
      and toc: \<open>sections_toc_as_html ?D
        = ''<h2>Table of Contents</h2>\<newline><ul>\<newline>'' @ join ''\<newline>'' entries @ ''\<newline></ul>''\<close>
      and e: \<open>\<forall>i<length (sections ?D).
         entries ! i = ''<li><a href="#section_'' @ str_int (int i) @ ''" >''
                       @ upper (dxf_section.name (sections ?D ! i)) @ ''</a></li>''\<close>
    by (elim exE conjE)
  then obtain e0 e1 where es: "entries = [e0, e1]"
    by (cases entries; cases "tl entries") auto
  from e [rule_format, of 0] e [rule_format, of 1] es
  have \<open>e0 = ''<li><a href="#section_0" >HEADER</a></li>''\<close>
    and \<open>e1 = ''<li><a href="#section_1" >ENTITIES</a></li>''\<close>
    by (simp_all add: s0 s1 upper_def upper_char_def)
  with toc es have A: \<open>sections_toc_as_html ?D
     = ''<h2>Table of Contents</h2>\<newline><ul>\<newline><li><a href="#section_0" >HEADER</a></li>\<newline><li><a href="#section_1" >ENTITIES</a></li>\<newline></ul>''\<close>
    by simp
  have "\<exists>out. sections2html escape ?tt ?D = Inr out"
    by (simp add: sections2html_def section2html_def section_hdrvars_def section_entities_def
          and_then_def hdrvars2html_def entities2html_def create_section_html_template_def
          SECTION_ID_def s0 s1 str_int_def str_nat.simps upper_def upper_char_def enumerate_eq_zip)
  then obtain out where out: "sections2html escape ?tt ?D = Inr out" ..
  from toc_entries [of ?D, THEN conjunct2, rule_format, OF out] obtain wrapped
    where len: "length wrapped = length (sections ?D)"
      and o: \<open>out = ''<div class="dxf-sections">\<newline>'' @ join ''\<newline>'' wrapped @ ''\<newline></div>''\<close>
      and p: \<open>\<forall>i<length (sections ?D).
            prefix (''<div id="section_'' @ str_int (int i) @ ''"'') (wrapped ! i)\<close>
    by (elim exE conjE)
  from len obtain w0 w1 where ws: "wrapped = [w0, w1]"
    by (cases wrapped; cases "tl wrapped") auto
  from p [rule_format, of 0] p [rule_format, of 1]
  have \<open>prefix ''<div id="section_0"'' (wrapped ! 0)\<close> \<open>prefix ''<div id="section_1"'' (wrapped ! 1)\<close>
    by (simp_all add: s0 s1)
  with len out o ws have B: \<open>\<exists>wrapped. length wrapped = 2 \<and>
      sections2html escape ?tt ?D
      = Inr (''<div class="dxf-sections">\<newline>'' @ wrapped ! 0 @ ''\<newline>'' @ wrapped ! 1 @ ''\<newline></div>'') \<and>
      prefix ''<div id="section_0"'' (wrapped ! 0) \<and>
      prefix ''<div id="section_1"'' (wrapped ! 1)\<close>
    by (intro exI [of _ wrapped]) simp
  from A B show ?thesis by (rule conjI)
qed

subsection \<open>The section dispatcher\<close>

lemma fill_slot:
  assumes "\<forall>c\<in>set pre. c \<noteq> CHR ''{'' \<and> c \<noteq> CHR ''}''"
    and "\<forall>c\<in>set post. c \<noteq> CHR ''{'' \<and> c \<noteq> CHR ''}''"
    and "tpl = pre @ ''{}'' @ post"
    and "r = Inr x"
  shows "and_then (and_then r f) (\<lambda>b. str_format tpl [b] 0)
         = (case f x of Inl e \<Rightarrow> Inl e | Inr b \<Rightarrow> Inr (pre @ b @ post))"
proof (cases "f x")
  case (Inl e)
  then show ?thesis by (simp add: assms(4) and_then_def)
next
  case (Inr b)
  then show ?thesis
    by (simp only: assms(3,4) and_then_def sum.case str_format_slot [OF assms(1,2)])
qed

text \<open>
  The choice of the renderer. \<open>section2html\<close> chooses it by the kind name of the
  section alone: \<^verbatim>\<open>header\<close> gives \<open>hdrvars2html\<close>; \<^verbatim>\<open>classes\<close>, \<^verbatim>\<open>objects\<close> and
  \<^verbatim>\<open>entities\<close> give \<open>entities2html\<close>; \<^verbatim>\<open>tables\<close> gives \<open>tables2html\<close>; \<^verbatim>\<open>blocks\<close> gives
  \<open>blocks2html\<close>; every other name gives \<open>tags2html\<close> on the raw tags of the section.
  When the wrapper template is text without braces around the one slot \<^verbatim>\<open>{}\<close>, the
  result is the renderer's body placed in the slot and the only errors are the
  renderer's own. \<open>create_section_html_template\<close> builds such a wrapper exactly for a
  kind name that holds no brace.
\<close>

theorem section2html_dispatch:
  assumes "\<forall>c\<in>set pre. c \<noteq> CHR ''{'' \<and> c \<noteq> CHR ''}''"
    and "\<forall>c\<in>set post. c \<noteq> CHR ''{'' \<and> c \<noteq> CHR ''}''"
  shows "(dxf_section.name s = ''header'' \<and> body s = HdrVars hv \<longrightarrow>
            section2html esc tt s (pre @ ''{}'' @ post)
            = (case hdrvars2html esc tt hv of
                 Inl e \<Rightarrow> Inl e | Inr b \<Rightarrow> Inr (pre @ b @ post))) \<and>
         ((dxf_section.name s = ''classes'' \<or> dxf_section.name s = ''objects''
             \<or> dxf_section.name s = ''entities'') \<and> body s = Entities es \<longrightarrow>
            section2html esc tt s (pre @ ''{}'' @ post)
            = (case entities2html esc tt es of
                 Inl e \<Rightarrow> Inl e | Inr b \<Rightarrow> Inr (pre @ b @ post))) \<and>
         (dxf_section.name s = ''tables'' \<and> body s = Tables tbs \<longrightarrow>
            section2html esc tt s (pre @ ''{}'' @ post)
            = (case tables2html esc tt tbs of
                 Inl e \<Rightarrow> Inl e | Inr b \<Rightarrow> Inr (pre @ b @ post))) \<and>
         (dxf_section.name s = ''blocks'' \<and> body s = Blocks bs \<longrightarrow>
            section2html esc tt s (pre @ ''{}'' @ post)
            = (case blocks2html esc tt bs of
                 Inl e \<Rightarrow> Inl e | Inr b \<Rightarrow> Inr (pre @ b @ post))) \<and>
         (dxf_section.name s \<notin> {''header'', ''classes'', ''objects'', ''entities'',
                                  ''tables'', ''blocks''} \<and> body s = Tags ts \<longrightarrow>
            section2html esc tt s (pre @ ''{}'' @ post)
            = (case tags2html esc tt ts of
                 Inl e \<Rightarrow> Inl e | Inr b \<Rightarrow> Inr (pre @ b @ post)))"
proof -
  define tpl where "tpl = pre @ ''{}'' @ post"
  note fill = fill_slot [OF assms tpl_def]
  have "dxf_section.name s = ''header'' \<and> body s = HdrVars hv \<longrightarrow>
            section2html esc tt s tpl
            = (case hdrvars2html esc tt hv of
                 Inl e \<Rightarrow> Inl e | Inr b \<Rightarrow> Inr (pre @ b @ post))"
    by (simp add: section2html_def section_hdrvars_def fill)
  moreover have "(dxf_section.name s = ''classes'' \<or> dxf_section.name s = ''objects''
             \<or> dxf_section.name s = ''entities'') \<and> body s = Entities es \<longrightarrow>
            section2html esc tt s tpl
            = (case entities2html esc tt es of
                 Inl e \<Rightarrow> Inl e | Inr b \<Rightarrow> Inr (pre @ b @ post))"
    by (auto simp: section2html_def section_entities_def fill)
  moreover have "dxf_section.name s = ''tables'' \<and> body s = Tables tbs \<longrightarrow>
            section2html esc tt s tpl
            = (case tables2html esc tt tbs of
                 Inl e \<Rightarrow> Inl e | Inr b \<Rightarrow> Inr (pre @ b @ post))"
    by (simp add: section2html_def section_tables_def fill)
  moreover have "dxf_section.name s = ''blocks'' \<and> body s = Blocks bs \<longrightarrow>
            section2html esc tt s tpl
            = (case blocks2html esc tt bs of
                 Inl e \<Rightarrow> Inl e | Inr b \<Rightarrow> Inr (pre @ b @ post))"
    by (simp add: section2html_def section_blocks_def fill)
  moreover have "dxf_section.name s \<notin> {''header'', ''classes'', ''objects'', ''entities'',
                                  ''tables'', ''blocks''} \<and> body s = Tags ts \<longrightarrow>
            section2html esc tt s tpl
            = (case tags2html esc tt ts of
                 Inl e \<Rightarrow> Inl e | Inr b \<Rightarrow> Inr (pre @ b @ post))"
    by (simp add: section2html_def section_tags_def fill)
  ultimately show ?thesis
    unfolding tpl_def by (intro conjI)
qed

theorem section2html_dispatch_witness:
  \<open>section2html escape (\<lambda>c. Inr T_int)
      \<lparr>dxf_section.name = ''thumbnailimage'',
       body = Tags [\<lparr>tag.code = 90, value = IntV 1\<rparr>]\<rparr>
      (create_section_html_template ''thumbnailimage'' 2)
    = Inr ''<div id="section_2" class="dxf-section"><h2>SECTION: THUMBNAILIMAGE</h2>\<newline><div><a href="#section_1">previous</a> <a href="#section_3">next</a></div>\<newline><div class="dxf-tags">\<newline><div class="dxf-tag"><span class="tag-code">90</span> <span class="var-type">&lt;int&gt;</span> <span class="tag-value">1</span></div>\<newline></div>\<newline></div>\<newline>''\<close>
proof -
  let ?pre = \<open>''<div id="section_2" class="dxf-section"><h2>SECTION: THUMBNAILIMAGE</h2>\<newline><div><a href="#section_1">previous</a> <a href="#section_3">next</a></div>\<newline>''\<close>
  let ?post = \<open>''\<newline></div>\<newline>''\<close>
  let ?tt = "\<lambda>c::int. (Inr T_int :: error + pytype)"
  let ?s = "\<lparr>dxf_section.name = ''thumbnailimage'',
       body = Tags [\<lparr>tag.code = 90, value = IntV 1\<rparr>]\<rparr>"
  have tpl: "create_section_html_template ''thumbnailimage'' 2 = ?pre @ ''{}'' @ ?post"
    by (simp add: create_section_html_template_def SECTION_ID_def str_int_def str_nat.simps
          upper_def upper_char_def)
  have pre: "\<forall>c\<in>set ?pre. c \<noteq> CHR ''{'' \<and> c \<noteq> CHR ''}''" by simp
  have post: "\<forall>c\<in>set ?post. c \<noteq> CHR ''{'' \<and> c \<noteq> CHR ''}''" by simp
  have tg: \<open>tags2html escape ?tt [\<lparr>tag.code = 90, value = IntV 1\<rparr>]
     = Inr ''<div class="dxf-tags">\<newline><div class="dxf-tag"><span class="tag-code">90</span> <span class="var-type">&lt;int&gt;</span> <span class="tag-value">1</span></div>\<newline></div>''\<close>
    by (simp add: tags2html_def tag2html_def tag_type_str_def TAG_TYPES_def
          HANDLE_DEFINITIONS_iff HANDLE_LINKS_iff GROUP_MARKERS_iff group_marker_def
          TAG_TEMPLATE_def str_int_def str_nat.simps escape_char_def)
  have "section2html escape ?tt ?s (?pre @ ''{}'' @ ?post)
        = (case tags2html escape ?tt [\<lparr>tag.code = 90, value = IntV 1\<rparr>] of
             Inl e \<Rightarrow> Inl e | Inr b \<Rightarrow> Inr (?pre @ b @ ?post))"
    using section2html_dispatch [OF pre post,
        where s = ?s and ts = "[\<lparr>tag.code = 90, value = IntV 1\<rparr>]"
          and esc = escape and tt = ?tt]
    by simp
  then show ?thesis
    by (simp only: tpl tg sum.case) simp
qed

text \<open>
  C5. The claim that every other kind is rendered by the tag-stream renderer without
  raising an error fails on the code for a kind name that holds a brace. The wrapper is
  built by one \<^verbatim>\<open>format\<close> call, which puts the name into it, and filled by a second one,
  which reads the name's braces as part of the template. For the section named \<^verbatim>\<open>{}\<close>
  with no tags, \<open>tags2html\<close> returns its container, the wrapper holds two empty fields,
  and filling it with the one body raises IndexError; the name \<^verbatim>\<open>}\<close> raises ValueError;
  the render of a drawing with such a section ends in that error. The table of
  contents, which formats the same name in a single call, renders it.
\<close>

theorem section2html_brace_name:
  \<open>tags2html escape (\<lambda>c. Inr T_ustr) [] = Inr ''<div class="dxf-tags">\<newline>\<newline></div>'' \<and>
   create_section_html_template ''{}'' 0
     = ''<div id="section_0" class="dxf-section"><h2>SECTION: {}</h2>\<newline><div><a href="#section_-1">previous</a> <a href="#section_1">next</a></div>\<newline>{}\<newline></div>\<newline>'' \<and>
   section2html escape (\<lambda>c. Inr T_ustr) \<lparr>dxf_section.name = ''{}'', body = Tags []\<rparr>
     (create_section_html_template ''{}'' 0) = Inl IndexError \<and>
   section2html escape (\<lambda>c. Inr T_ustr) \<lparr>dxf_section.name = ''}'', body = Tags []\<rparr>
     (create_section_html_template ''}'' 0) = Inl ValueError \<and>
   dxf2html escape (\<lambda>c. Inr T_ustr)
     \<lparr>filename = None, sections = [\<lparr>dxf_section.name = ''{}'', body = Tags []\<rparr>]\<rparr>
     = Inl IndexError \<and>
   sections_toc_as_html
     \<lparr>filename = None, sections = [\<lparr>dxf_section.name = ''{}'', body = Tags []\<rparr>]\<rparr>
     = ''<h2>Table of Contents</h2>\<newline><ul>\<newline><li><a href="#section_0" >{}</a></li>\<newline></ul>''\<close>
proof -
  let ?tt = "\<lambda>c::int. (Inr T_ustr :: error + pytype)"
  have s: "str_int 0 = ''0''" "str_int (- 1) = ''-1''" "str_int 1 = ''1''"
    by (simp_all add: str_int_def str_nat.simps)
  have t0: \<open>tags2html escape ?tt [] = Inr ''<div class="dxf-tags">\<newline>\<newline></div>''\<close>
    by (simp add: tags2html_def)
  have tpl: \<open>create_section_html_template ''{}'' 0
     = ''<div id="section_0" class="dxf-section"><h2>SECTION: {}</h2>\<newline><div><a href="#section_-1">previous</a> <a href="#section_1">next</a></div>\<newline>{}\<newline></div>\<newline>''\<close>
    by (simp add: create_section_html_template_def SECTION_ID_def s upper_def upper_char_def)
  have tpl2: \<open>create_section_html_template ''}'' 0
     = ''<div id="section_0" class="dxf-section"><h2>SECTION: }</h2>\<newline><div><a href="#section_-1">previous</a> <a href="#section_1">next</a></div>\<newline>{}\<newline></div>\<newline>''\<close>
    by (simp add: create_section_html_template_def SECTION_ID_def s upper_def upper_char_def)
  have a: "section2html escape ?tt \<lparr>dxf_section.name = ''{}'', body = Tags []\<rparr>
     (create_section_html_template ''{}'' 0) = Inl IndexError"
    by (simp only: tpl) (simp add: section2html_def section_tags_def and_then_def t0)
  have b: "section2html escape ?tt \<lparr>dxf_section.name = ''}'', body = Tags []\<rparr>
     (create_section_html_template ''}'' 0) = Inl ValueError"
    by (simp only: tpl2) (simp add: section2html_def section_tags_def and_then_def t0)
  have c: "dxf2html escape ?tt
     \<lparr>filename = None, sections = [\<lparr>dxf_section.name = ''{}'', body = Tags []\<rparr>]\<rparr>
     = Inl IndexError"
    using a by (simp add: dxf2html_def sections2html_def enumerate_eq_zip)
  have d: \<open>sections_toc_as_html
     \<lparr>filename = None, sections = [\<lparr>dxf_section.name = ''{}'', body = Tags []\<rparr>]\<rparr>
     = ''<h2>Table of Contents</h2>\<newline><ul>\<newline><li><a href="#section_0" >{}</a></li>\<newline></ul>''\<close>
    by (simp add: sections_toc_as_html_def TOC_TPL_def TOC_ENTRY_TPL_def SECTION_ID_def s
          upper_def upper_char_def enumerate_eq_zip)
  from t0 tpl a b c d show ?thesis by (intro conjI)
qed

subsection \<open>Header variables\<close>




subsection \<open>Names of entities, tables and blocks\<close>

text \<open>
  C10. The type name of an entity, the name of a table (in upper case) and the name of
  a block layout are placed in the output as they are, whatever the escape function
  is: none of them is passed to it. There is a page, from an entity whose type name
  holds \<^verbatim>\<open><\<close>, \<^verbatim>\<open>>\<close> and \<^verbatim>\<open>&\<close> and whose one tag has the same text as its value, in which
  the heading shows the name literally while the tag value appears only in its escaped
  form.
\<close>

theorem names_not_escaped:
  \<open>(tags2html esc tt (tags en) = Inr t \<longrightarrow>
      entity2html esc tt en
      = Inr (''<div class="dxf-entity"><h3>'' @ dxftype en @ ''</h3>\<newline>'' @ t @ ''\<newline></div>'')) \<and>
    (tags2html esc tt (table_header tb) = Inr th \<and> entities2html esc tt (entries tb) = Inr es \<longrightarrow>
      table2html esc tt tb nav
      = Inr (''<div class="dxf-block">\<newline><h2>'' @ upper (table.name tb) @ ''</h2>\<newline>'' @ nav
             @ ''\<newline><div class="dxf-entity"><h3>TABLE HEADER</h3>\<newline>'' @ th @ ''\<newline></div>\<newline>''
             @ es @ ''\<newline></div>'')) \<and>
    (entity2html esc tt (block bl) = Inr b \<and> entities2html esc tt (entities bl) = Inr es'
       \<and> entity2html esc tt (endblk bl) = Inr eb \<longrightarrow>
      block2html esc tt bl
      = Inr (''<div class="dxf-block">\<newline><h2>'' @ block_layout.name bl @ ''</h2>\<newline>'' @ b
             @ ''\<newline>'' @ es' @ ''\<newline>'' @ eb @ ''\<newline></div>'')) \<and>
    (\<exists>nm page. CHR ''<'' \<in> set nm \<and> CHR ''>'' \<in> set nm \<and> CHR ''&'' \<in> set nm \<and>
       dxf2html escape (\<lambda>c. Inr T_ustr)
         \<lparr>filename = None,
          sections = [\<lparr>dxf_section.name = ''entities'',
                       body = Entities [\<lparr>dxftype = nm,
                                         tags = [\<lparr>tag.code = 1, value = StrV nm\<rparr>]\<rparr>]\<rparr>]\<rparr>
       = Inr page \<and>
       sublist (''<h3>'' @ nm @ ''</h3>'') page \<and>
       sublist (''<span class="tag-value">'' @ escape nm @ ''</span>'') page \<and>
       \<not> sublist (''<span class="tag-value">'' @ nm @ ''</span>'') page)\<close>
proof (intro conjI impI)
  assume "tags2html esc tt (tags en) = Inr t"
  then show \<open>entity2html esc tt en
      = Inr (''<div class="dxf-entity"><h3>'' @ dxftype en @ ''</h3>\<newline>'' @ t @ ''\<newline></div>'')\<close>
    by (simp add: entity2html_def ENTITY_TEMPLATE_def)
next
  assume "tags2html esc tt (table_header tb) = Inr th \<and> entities2html esc tt (entries tb) = Inr es"
  then show \<open>table2html esc tt tb nav
      = Inr (''<div class="dxf-block">\<newline><h2>'' @ upper (table.name tb) @ ''</h2>\<newline>'' @ nav
             @ ''\<newline><div class="dxf-entity"><h3>TABLE HEADER</h3>\<newline>'' @ th @ ''\<newline></div>\<newline>''
             @ es @ ''\<newline></div>'')\<close>
    by (simp add: table2html_def ENTITY_TEMPLATE_def)
next
  assume "entity2html esc tt (block bl) = Inr b \<and> entities2html esc tt (entities bl) = Inr es'
       \<and> entity2html esc tt (endblk bl) = Inr eb"
  then show \<open>block2html esc tt bl
      = Inr (''<div class="dxf-block">\<newline><h2>'' @ block_layout.name bl @ ''</h2>\<newline>'' @ b
             @ ''\<newline>'' @ es' @ ''\<newline>'' @ eb @ ''\<newline></div>'')\<close>
    by (simp add: block2html_def)
next
  show \<open>\<exists>nm page. CHR ''<'' \<in> set nm \<and> CHR ''>'' \<in> set nm \<and> CHR ''&'' \<in> set nm \<and>
       dxf2html escape (\<lambda>c. Inr T_ustr)
         \<lparr>filename = None,
          sections = [\<lparr>dxf_section.name = ''entities'',
                       body = Entities [\<lparr>dxftype = nm,
                                         tags = [\<lparr>tag.code = 1, value = StrV nm\<rparr>]\<rparr>]\<rparr>]\<rparr>
       = Inr page \<and>
       sublist (''<h3>'' @ nm @ ''</h3>'') page \<and>
       sublist (''<span class="tag-value">'' @ escape nm @ ''</span>'') page \<and>
       \<not> sublist (''<span class="tag-value">'' @ nm @ ''</span>'') page\<close>
    by (rule exI [of _ "''<b>&''"])
      (simp add: dxf2html_def sections2html_def section2html_def section_entities_def
        and_then_def entities2html_def entity2html_def tags2html_def tag2html_def
        tag_type_str_def TAG_TYPES_def HANDLE_DEFINITIONS_iff HANDLE_LINKS_iff
        GROUP_MARKERS_iff group_marker_def TAG_TEMPLATE_def ENTITY_TEMPLATE_def
        create_section_html_template_def SECTION_ID_def str_int_def str_nat.simps
        upper_def upper_char_def escape_char_def sections_toc_as_html_def TOC_TPL_def
        TOC_ENTRY_TPL_def HTML_TEMPLATE_def get_name_def enumerate_eq_zip
        sublist_Cons_right)
qed

theorem names_not_escaped_witness:
  \<open>entity2html escape (\<lambda>c. Inr T_ustr) \<lparr>dxftype = ''A<B>&C'', tags = []\<rparr>
     = Inr ''<div class="dxf-entity"><h3>A<B>&C</h3>\<newline><div class="dxf-tags">\<newline>\<newline></div>\<newline></div>'' \<and>
   table2html escape (\<lambda>c. Inr T_ustr)
     \<lparr>table.name = ''a<b>&c'', table_header = [], entries = []\<rparr> ''''
     = Inr ''<div class="dxf-block">\<newline><h2>A<B>&C</h2>\<newline>\<newline><div class="dxf-entity"><h3>TABLE HEADER</h3>\<newline><div class="dxf-tags">\<newline>\<newline></div>\<newline></div>\<newline><div class="dxf-entities">\<newline>\<newline></div>\<newline></div>'' \<and>
   block2html escape (\<lambda>c. Inr T_ustr)
     \<lparr>block_layout.name = ''<&>'',
      block = \<lparr>dxftype = ''BLOCK'', tags = []\<rparr>,
      entities = [],
      endblk = \<lparr>dxftype = ''ENDBLK'', tags = []\<rparr>\<rparr>
     = Inr ''<div class="dxf-block">\<newline><h2><&></h2>\<newline><div class="dxf-entity"><h3>BLOCK</h3>\<newline><div class="dxf-tags">\<newline>\<newline></div>\<newline></div>\<newline><div class="dxf-entities">\<newline>\<newline></div>\<newline><div class="dxf-entity"><h3>ENDBLK</h3>\<newline><div class="dxf-tags">\<newline>\<newline></div>\<newline></div>\<newline></div>''\<close>
proof -
  let ?tt = "\<lambda>c::int. (Inr T_ustr :: error + pytype)"
  have t0: \<open>tags2html escape ?tt [] = Inr ''<div class="dxf-tags">\<newline>\<newline></div>''\<close>
    by (simp add: tags2html_def)
  have e0: \<open>entities2html escape ?tt [] = Inr ''<div class="dxf-entities">\<newline>\<newline></div>''\<close>
    by (simp add: entities2html_def)
  note n = names_not_escaped [where esc = escape and tt = ?tt]
  have ent: \<open>entity2html escape ?tt \<lparr>dxftype = nm, tags = []\<rparr>
     = Inr (''<div class="dxf-entity"><h3>'' @ nm @ ''</h3>\<newline><div class="dxf-tags">\<newline>\<newline></div>\<newline></div>'')\<close> for nm
    using n [THEN conjunct1, rule_format, where en = "\<lparr>dxftype = nm, tags = []\<rparr>", of \<open>''<div class="dxf-tags">\<newline>\<newline></div>''\<close>] t0
    by simp
  have tab: \<open>table2html escape ?tt \<lparr>table.name = ''a<b>&c'', table_header = [], entries = []\<rparr> ''''
     = Inr ''<div class="dxf-block">\<newline><h2>A<B>&C</h2>\<newline>\<newline><div class="dxf-entity"><h3>TABLE HEADER</h3>\<newline><div class="dxf-tags">\<newline>\<newline></div>\<newline></div>\<newline><div class="dxf-entities">\<newline>\<newline></div>\<newline></div>''\<close>
    using n [THEN conjunct2, THEN conjunct1, rule_format,
        where tb = "\<lparr>table.name = ''a<b>&c'', table_header = [], entries = []\<rparr>" and nav = "''''",
        OF conjI, of \<open>''<div class="dxf-tags">\<newline>\<newline></div>''\<close> \<open>''<div class="dxf-entities">\<newline>\<newline></div>''\<close>] t0 e0
    by (simp add: upper_def upper_char_def)
  have blk: \<open>block2html escape ?tt
     \<lparr>block_layout.name = ''<&>'',
      block = \<lparr>dxftype = ''BLOCK'', tags = []\<rparr>,
      entities = [],
      endblk = \<lparr>dxftype = ''ENDBLK'', tags = []\<rparr>\<rparr>
     = Inr ''<div class="dxf-block">\<newline><h2><&></h2>\<newline><div class="dxf-entity"><h3>BLOCK</h3>\<newline><div class="dxf-tags">\<newline>\<newline></div>\<newline></div>\<newline><div class="dxf-entities">\<newline>\<newline></div>\<newline><div class="dxf-entity"><h3>ENDBLK</h3>\<newline><div class="dxf-tags">\<newline>\<newline></div>\<newline></div>\<newline></div>''\<close>
    using n [THEN conjunct2, THEN conjunct2, THEN conjunct1, rule_format,
        where bl = "\<lparr>block_layout.name = ''<&>'',
      block = \<lparr>dxftype = ''BLOCK'', tags = []\<rparr>,
      entities = [],
      endblk = \<lparr>dxftype = ''ENDBLK'', tags = []\<rparr>\<rparr>"] ent [of "''BLOCK''"] ent [of "''ENDBLK''"] e0
    by simp
  from ent [of "''A<B>&C''"] tab blk show ?thesis by simp
qed

subsection \<open>Propagation of lookup failures\<close>



















subsection \<open>The section wrapper\<close>

lemma str_nat_nonempty: "str_nat n \<noteq> []"
  by (subst str_nat.simps) simp

lemma str_nat_inj: "str_nat n = str_nat m \<Longrightarrow> n = m"
proof (induction n arbitrary: m rule: str_nat.induct)
  case (1 n)
  have D: "distinct ''0123456789''" by simp
  have L: "length ''0123456789'' = 10" by simp
  show ?case
  proof (cases "n < 10")
    case n: True
    then have sn: "str_nat n = [''0123456789'' ! n]"
      by (subst str_nat.simps) (simp only: if_True)
    show ?thesis
    proof (cases "m < 10")
      case True
      then have "str_nat m = [''0123456789'' ! m]"
        by (subst str_nat.simps) (simp only: if_True)
      with sn "1.prems" have "''0123456789'' ! n = ''0123456789'' ! m" by simp
      then show ?thesis
        using nth_eq_iff_index_eq [OF D, of n m] n True by (simp only: L)
    next
      case False
      then have "str_nat m = str_nat (m div 10) @ [''0123456789'' ! (m mod 10)]"
        by (subst str_nat.simps) (simp only: if_False)
      with sn "1.prems" have "str_nat (m div 10) = []" by simp
      then show ?thesis using str_nat_nonempty by blast
    qed
  next
    case n: False
    then have sn: "str_nat n = str_nat (n div 10) @ [''0123456789'' ! (n mod 10)]"
      by (subst str_nat.simps) (simp only: if_False)
    show ?thesis
    proof (cases "m < 10")
      case True
      then have "str_nat m = [''0123456789'' ! m]"
        by (subst str_nat.simps) (simp only: if_True)
      with sn "1.prems" have "str_nat (n div 10) = []" by simp
      then show ?thesis using str_nat_nonempty by blast
    next
      case False
      then have "str_nat m = str_nat (m div 10) @ [''0123456789'' ! (m mod 10)]"
        by (subst str_nat.simps) (simp only: if_False)
      with sn "1.prems" have a: "str_nat (n div 10) = str_nat (m div 10)"
        and b: "''0123456789'' ! (n mod 10) = ''0123456789'' ! (m mod 10)" by simp_all
      from "1.IH" [OF n a] have "n div 10 = m div 10" .
      moreover have "n mod 10 = m mod 10"
        using nth_eq_iff_index_eq [OF D, of "n mod 10" "m mod 10"] b by (simp only: L) simp
      ultimately show ?thesis by (metis div_mult_mod_eq)
    qed
  qed
qed

lemma str_nat_no_minus: "str_nat n \<noteq> CHR ''-'' # s"
proof
  assume "str_nat n = CHR ''-'' # s"
  then have "CHR ''-'' \<in> set (str_nat n)" by simp
  then have "CHR ''-'' \<in> set ''0123456789''" using str_nat_digits [of n] by (rule rev_subsetD)
  then show False by simp
qed

lemma str_int_inj: "str_int i = str_int j \<longleftrightarrow> i = j"
proof
  assume eq: "str_int i = str_int j"
  show "i = j"
  proof (cases "i < 0"; cases "j < 0")
    assume "i < 0" "j < 0"
    with eq have "str_nat (nat (- i)) = str_nat (nat (- j))" by (simp add: str_int_def)
    then have "nat (- i) = nat (- j)" by (rule str_nat_inj)
    with \<open>i < 0\<close> \<open>j < 0\<close> show ?thesis by simp
  next
    assume "i < 0" "\<not> j < 0"
    with eq have "str_nat (nat j) = CHR ''-'' # str_nat (nat (- i))" by (simp add: str_int_def)
    then show ?thesis using str_nat_no_minus by blast
  next
    assume "\<not> i < 0" "j < 0"
    with eq have "str_nat (nat i) = CHR ''-'' # str_nat (nat (- j))" by (simp add: str_int_def)
    then show ?thesis using str_nat_no_minus by blast
  next
    assume "\<not> i < 0" "\<not> j < 0"
    with eq have "str_nat (nat i) = str_nat (nat j)" by (simp add: str_int_def)
    then have "nat i = nat j" by (rule str_nat_inj)
    with \<open>\<not> i < 0\<close> \<open>\<not> j < 0\<close> show ?thesis by simp
  qed
qed simp

lemma SECTION_ID_inj: "SECTION_ID i = SECTION_ID j \<longleftrightarrow> i = j"
  by (simp only: SECTION_ID_def same_append_eq str_int_inj)

lemma isl_map_sum_id: "isl (map_sum id f r) = isl r"
  by (cases r) simp_all

lemma str_format_isl_plain:
  assumes "\<forall>c\<in>set Q. c \<noteq> CHR ''{'' \<and> c \<noteq> CHR ''}''"
  shows "isl (str_format (Q @ Z) args n) = isl (str_format Z args n)"
  by (simp only: str_format_plain [OF assms] isl_map_sum_id)

lemma str_format_isl_middle:
  assumes Q: "\<forall>c\<in>set Q. c \<noteq> CHR ''{'' \<and> c \<noteq> CHR ''}''" "Q \<noteq> []"
    and Q': "\<forall>c\<in>set Q'. c \<noteq> CHR ''{'' \<and> c \<noteq> CHR ''}''" "Q' \<noteq> []"
  shows "isl (str_format (U @ Q @ Z) args n) = isl (str_format (U @ Q' @ Z) args n)"
proof (induction U args n rule: str_format.induct)
  case (1 args n)
  show ?case
    by (simp only: append_Nil str_format_isl_plain [OF Q(1)] str_format_isl_plain [OF Q'(1)])
next
  case (2 c args n)
  from Q obtain q Q1 where q: "Q = q # Q1" "q \<noteq> CHR ''{''" "q \<noteq> CHR ''}''"
    by (cases Q) auto
  from Q' obtain q' Q1' where q': "Q' = q' # Q1'" "q' \<noteq> CHR ''{''" "q' \<noteq> CHR ''}''"
    by (cases Q') auto
  show ?case
  proof (cases "c = CHR ''{'' \<or> c = CHR ''}''")
    case True
    then show ?thesis using q q' by auto
  next
    case False
    then have "isl (str_format ([c] @ Q @ Z) args n) = isl (str_format (Q @ Z) args n)"
      by (intro str_format_isl_plain) simp
    moreover from False
    have "isl (str_format ([c] @ Q' @ Z) args n) = isl (str_format (Q' @ Z) args n)"
      by (intro str_format_isl_plain) simp
    ultimately show ?thesis
      by (simp only: str_format_isl_plain [OF Q(1)] str_format_isl_plain [OF Q'(1)])
  qed
next
  case (3 c d cs args n)
  show ?case
  proof (cases "c = CHR ''{''")
    case c: True
    show ?thesis
    proof (cases "d = CHR ''{''")
      case True
      with c 3(1) show ?thesis by (simp add: isl_map_sum_id)
    next
      case d: False
      show ?thesis
      proof (cases "d = CHR ''}''")
        case True
        with c d 3(2) show ?thesis by (simp add: isl_map_sum_id)
      next
        case False
        with c d show ?thesis by simp
      qed
    qed
  next
    case c: False
    show ?thesis
    proof (cases "c = CHR ''}''")
      case c2: True
      show ?thesis
      proof (cases "d = CHR ''}''")
        case True
        with c c2 3(3) show ?thesis by (simp add: isl_map_sum_id)
      next
        case False
        with c c2 show ?thesis by simp
      qed
    next
      case False
      with c 3(4) show ?thesis by (simp add: isl_map_sum_id)
    qed
  qed
qed

lemma upper_char_brace:
  "upper_char c = CHR ''{'' \<longleftrightarrow> c = CHR ''{''"
  "upper_char c = CHR ''}'' \<longleftrightarrow> c = CHR ''}''"
  by (auto simp: upper_char_def)

lemma braceless_upper:
  assumes "\<forall>c\<in>set nm. c \<noteq> CHR ''{'' \<and> c \<noteq> CHR ''}''"
  shows "\<forall>c\<in>set (upper nm). c \<noteq> CHR ''{'' \<and> c \<noteq> CHR ''}''"
  using assms by (auto simp: upper_def upper_char_brace)

lemma template_head_braceless:
  \<open>\<forall>c\<in>set (''<div id="'' @ SECTION_ID i @ ''" class="dxf-section"><h2>SECTION: '').
     c \<noteq> CHR ''{'' \<and> c \<noteq> CHR ''}''\<close>
  using braceless_SECTION_ID [of _ i] by auto

lemma template_nav_braceless:
  \<open>\<forall>c\<in>set (''</h2>\<newline><div><a href="#'' @ SECTION_ID j @ ''">previous</a> <a href="#''
              @ SECTION_ID k @ ''">next</a></div>\<newline>'').
     c \<noteq> CHR ''{'' \<and> c \<noteq> CHR ''}''\<close>
  using braceless_SECTION_ID [of _ j] braceless_SECTION_ID [of _ k] by auto

lemma template_parts:
  \<open>create_section_html_template nm i
   = (''<div id="'' @ SECTION_ID i @ ''" class="dxf-section"><h2>SECTION: '')
     @ upper nm
     @ (''</h2>\<newline><div><a href="#'' @ SECTION_ID (i - 1) @ ''">previous</a> <a href="#''
        @ SECTION_ID (i + 1) @ ''">next</a></div>\<newline>'')
     @ ''{}\<newline></div>\<newline>''\<close>
  by (simp add: create_section_html_template_def Let_def)

lemma template_format_isl:
  "isl (str_format (create_section_html_template nm i) args n)
   = isl (str_format (create_section_html_template nm j) args n)"
proof -
  let ?Z = \<open>''{}\<newline></div>\<newline>''\<close>
  let ?Q = \<open>\<lambda>i. ''</h2>\<newline><div><a href="#'' @ SECTION_ID (i - 1) @ ''">previous</a> <a href="#''
        @ SECTION_ID (i + 1) @ ''">next</a></div>\<newline>''\<close>
  have mid: "isl (str_format (upper nm @ ?Q i @ ?Z) args n)
             = isl (str_format (upper nm @ ?Q j @ ?Z) args n)"
  proof (rule str_format_isl_middle)
    show "\<forall>c\<in>set (?Q i). c \<noteq> CHR ''{'' \<and> c \<noteq> CHR ''}''" by (rule template_nav_braceless)
    show "\<forall>c\<in>set (?Q j). c \<noteq> CHR ''{'' \<and> c \<noteq> CHR ''}''" by (rule template_nav_braceless)
    show "?Q i \<noteq> []" by simp
    show "?Q j \<noteq> []" by simp
  qed
  have "isl (str_format (create_section_html_template nm k) args n)
        = isl (str_format (upper nm @ ?Q k @ ?Z) args n)" for k
    by (simp only: template_parts str_format_isl_plain [OF template_head_braceless])
  with mid show ?thesis by simp
qed

lemma isl_and_then_cong:
  "(\<And>b. isl (f b) = isl (g b)) \<Longrightarrow> isl (and_then r f) = isl (and_then r g)"
  by (cases r) (simp_all add: and_then_def)

lemma section2html_isl_index:
  "isl (section2html esc tt s (create_section_html_template nm i))
   = isl (section2html esc tt s (create_section_html_template nm j))"
  unfolding section2html_def
  by (simp only: isl_and_then_cong [OF template_format_isl [of nm i _ 0 j]] split: if_split)
    simp

lemma section2html_wrapper:
  assumes nm: "\<forall>c\<in>set nm. c \<noteq> CHR ''{'' \<and> c \<noteq> CHR ''}''"
    and w: "section2html esc tt s (create_section_html_template nm i) = Inr w"
  shows \<open>\<exists>b. w = ''<div id="section_'' @ str_int i @ ''" class="dxf-section"><h2>SECTION: ''
                @ upper nm
                @ ''</h2>\<newline><div><a href="#section_'' @ str_int (i - 1)
                @ ''">previous</a> <a href="#section_'' @ str_int (i + 1)
                @ ''">next</a></div>\<newline>'' @ b @ ''\<newline></div>\<newline>''\<close>
proof -
  let ?P = \<open>''<div id="'' @ SECTION_ID i @ ''" class="dxf-section"><h2>SECTION: ''\<close>
  let ?Q = \<open>''</h2>\<newline><div><a href="#'' @ SECTION_ID (i - 1) @ ''">previous</a> <a href="#''
        @ SECTION_ID (i + 1) @ ''">next</a></div>\<newline>''\<close>
  let ?pre = "?P @ upper nm @ ?Q"
  let ?post = \<open>''\<newline></div>\<newline>''\<close>
  have pre: "\<forall>c\<in>set ?pre. c \<noteq> CHR ''{'' \<and> c \<noteq> CHR ''}''"
    using template_head_braceless [of i] template_nav_braceless [of "i - 1" "i + 1"]
      braceless_upper [OF nm]
    by (simp only: set_append ball_Un)
  have post: "\<forall>c\<in>set ?post. c \<noteq> CHR ''{'' \<and> c \<noteq> CHR ''}''" by simp
  have tpl: "create_section_html_template nm i = ?pre @ ''{}'' @ ?post"
    by (simp only: template_parts) simp
  from section2html_Inr [OF w] obtain b
    where "str_format (create_section_html_template nm i) [b] 0 = Inr w" ..
  then have "w = ?pre @ b @ ?post"
    by (simp only: tpl str_format_slot [OF pre post] sum.inject)
  then show ?thesis by (intro exI [of _ b]) (simp add: SECTION_ID_def)
qed

text \<open>
  C7, as the code has it. The wrapper of the section at index \<open>i\<close> carries the anchor
  \<^verbatim>\<open>id="section_i"\<close> and a navigation strip of two links, \<^verbatim>\<open>previous\<close> to
  \<^verbatim>\<open>#section_(i-1)\<close> and \<^verbatim>\<open>next\<close> to \<^verbatim>\<open>#section_(i+1)\<close>; the anchor of the section
  itself is the wrapper's id and not a link. For a kind name without braces the rendered
  section is this wrapper around the body. For the first section the previous link
  names \<^verbatim>\<open>section_-1\<close> and for the last the next link names \<^verbatim>\<open>section_N\<close>; none of the
  \<open>N\<close> wrappers has either as its id. Whether a section renders does not depend on
  its index, so these links raise nothing.
\<close>

theorem section_wrapper_links:
  \<open>create_section_html_template nm i
     = ''<div id="section_'' @ str_int i @ ''" class="dxf-section"><h2>SECTION: '' @ upper nm
       @ ''</h2>\<newline><div><a href="#section_'' @ str_int (i - 1)
       @ ''">previous</a> <a href="#section_'' @ str_int (i + 1)
       @ ''">next</a></div>\<newline>{}\<newline></div>\<newline>'' \<and>
   ((\<forall>c\<in>set nm. c \<noteq> CHR ''{'' \<and> c \<noteq> CHR ''}'') \<and>
      section2html esc tt s (create_section_html_template nm i) = Inr w \<longrightarrow>
      (\<exists>b. w = ''<div id="section_'' @ str_int i @ ''" class="dxf-section"><h2>SECTION: ''
                @ upper nm
                @ ''</h2>\<newline><div><a href="#section_'' @ str_int (i - 1)
                @ ''">previous</a> <a href="#section_'' @ str_int (i + 1)
                @ ''">next</a></div>\<newline>'' @ b @ ''\<newline></div>\<newline>'')) \<and>
   (k < N \<longrightarrow> SECTION_ID (int k) \<noteq> SECTION_ID (int 0 - 1) \<and>
               SECTION_ID (int k) \<noteq> SECTION_ID (int (N - 1) + 1)) \<and>
   isl (section2html esc tt s (create_section_html_template nm i))
     = isl (section2html esc tt s (create_section_html_template nm j))\<close>
proof (intro conjI impI)
  show \<open>create_section_html_template nm i
     = ''<div id="section_'' @ str_int i @ ''" class="dxf-section"><h2>SECTION: '' @ upper nm
       @ ''</h2>\<newline><div><a href="#section_'' @ str_int (i - 1)
       @ ''">previous</a> <a href="#section_'' @ str_int (i + 1)
       @ ''">next</a></div>\<newline>{}\<newline></div>\<newline>''\<close>
    by (simp add: create_section_html_template_def SECTION_ID_def Let_def)
next
  assume a: "(\<forall>c\<in>set nm. c \<noteq> CHR ''{'' \<and> c \<noteq> CHR ''}'') \<and>
      section2html esc tt s (create_section_html_template nm i) = Inr w"
  show \<open>\<exists>b. w = ''<div id="section_'' @ str_int i @ ''" class="dxf-section"><h2>SECTION: ''
                @ upper nm
                @ ''</h2>\<newline><div><a href="#section_'' @ str_int (i - 1)
                @ ''">previous</a> <a href="#section_'' @ str_int (i + 1)
                @ ''">next</a></div>\<newline>'' @ b @ ''\<newline></div>\<newline>''\<close>
    using a [THEN conjunct1] a [THEN conjunct2] by (rule section2html_wrapper)
next
  assume "k < N"
  then show "SECTION_ID (int k) \<noteq> SECTION_ID (int 0 - 1)"
    by (simp add: SECTION_ID_inj)
next
  assume "k < N"
  then show "SECTION_ID (int k) \<noteq> SECTION_ID (int (N - 1) + 1)"
    by (simp add: SECTION_ID_inj)
next
  show "isl (section2html esc tt s (create_section_html_template nm i))
     = isl (section2html esc tt s (create_section_html_template nm j))"
    by (rule section2html_isl_index)
qed

theorem section_wrapper_links_witness:
  \<open>section2html escape (\<lambda>c. Inr T_ustr)
      \<lparr>dxf_section.name = ''header'', body = HdrVars []\<rparr>
      (create_section_html_template ''header'' 0)
    = Inr ''<div id="section_0" class="dxf-section"><h2>SECTION: HEADER</h2>\<newline><div><a href="#section_-1">previous</a> <a href="#section_1">next</a></div>\<newline><div id="dxf-header" class="dxf-header">\<newline>\<newline></div>\<newline></div>\<newline>'' \<and>
   SECTION_ID 0 \<noteq> SECTION_ID (- 1) \<and> SECTION_ID 0 \<noteq> SECTION_ID 1\<close>
proof -
  let ?tt = "\<lambda>c::int. (Inr T_ustr :: error + pytype)"
  let ?s = "\<lparr>dxf_section.name = ''header'', body = HdrVars []\<rparr>"
  note t = section_wrapper_links [where nm = "''header''" and i = 0 and esc = escape
      and tt = ?tt and s = ?s and k = 0 and N = 1]
  have tpl: \<open>create_section_html_template ''header'' 0
     = ''<div id="section_0" class="dxf-section"><h2>SECTION: HEADER</h2>\<newline><div><a href="#section_-1">previous</a> <a href="#section_1">next</a></div>\<newline>{}\<newline></div>\<newline>''\<close>
    using t [THEN conjunct1]
    by (simp add: str_int_def str_nat.simps upper_def upper_char_def)
  have A: \<open>section2html escape ?tt ?s (create_section_html_template ''header'' 0)
    = Inr ''<div id="section_0" class="dxf-section"><h2>SECTION: HEADER</h2>\<newline><div><a href="#section_-1">previous</a> <a href="#section_1">next</a></div>\<newline><div id="dxf-header" class="dxf-header">\<newline>\<newline></div>\<newline></div>\<newline>''\<close>
    by (simp only: tpl)
      (simp add: section2html_def section_hdrvars_def and_then_def hdrvars2html_def)
  have B: "SECTION_ID 0 \<noteq> SECTION_ID (- 1) \<and> SECTION_ID 0 \<noteq> SECTION_ID 1"
    using t [THEN conjunct2, THEN conjunct2, THEN conjunct1] by simp
  from A B show ?thesis by (rule conjI)
qed

text \<open>
  The claim as it is written fails: the wrapper of a header section at index 0 holds two
  links and none of them refers to \<^verbatim>\<open>section_0\<close>; and the anchor \<^verbatim>\<open>section_-1\<close>, which the
  first section's previous link names, does exist in a page whose entity defines a
  handle of that text.
\<close>

theorem section_wrapper_links_counterexample:
  \<open>count_sub ''<a '' (create_section_html_template ''header'' 0) = 2 \<and>
   \<not> sublist ''href="#section_0"'' (create_section_html_template ''header'' 0) \<and>
   (\<exists>page. dxf2html escape (\<lambda>c. Inr T_ustr)
       \<lparr>filename = None,
        sections = [\<lparr>dxf_section.name = ''entities'',
                     body = Entities [\<lparr>dxftype = ''LINE'',
                       tags = [\<lparr>tag.code = 5, value = StrV ''section_-1''\<rparr>]\<rparr>]\<rparr>]\<rparr>
       = Inr page \<and>
     sublist ''<a href="#section_-1">previous</a>'' page \<and>
     sublist ''<span id="section_-1"'' page)\<close>
proof (intro conjI)
  have tpl: \<open>create_section_html_template ''header'' 0
     = ''<div id="section_0" class="dxf-section"><h2>SECTION: HEADER</h2>\<newline><div><a href="#section_-1">previous</a> <a href="#section_1">next</a></div>\<newline>{}\<newline></div>\<newline>''\<close>
    by (simp add: create_section_html_template_def SECTION_ID_def str_int_def str_nat.simps
          upper_def upper_char_def)
  show \<open>count_sub ''<a '' (create_section_html_template ''header'' 0) = 2\<close>
    by (simp only: tpl) simp
  show \<open>\<not> sublist ''href="#section_0"'' (create_section_html_template ''header'' 0)\<close>
    by (simp only: tpl) (simp add: sublist_Cons_right)
  show \<open>\<exists>page. dxf2html escape (\<lambda>c. Inr T_ustr)
       \<lparr>filename = None,
        sections = [\<lparr>dxf_section.name = ''entities'',
                     body = Entities [\<lparr>dxftype = ''LINE'',
                       tags = [\<lparr>tag.code = 5, value = StrV ''section_-1''\<rparr>]\<rparr>]\<rparr>]\<rparr>
       = Inr page \<and>
     sublist ''<a href="#section_-1">previous</a>'' page \<and>
     sublist ''<span id="section_-1"'' page\<close>
    by (simp add: dxf2html_def sections2html_def section2html_def section_entities_def
        and_then_def entities2html_def entity2html_def tags2html_def tag2html_def
        tag_type_str_def TAG_TYPES_def HANDLE_DEFINITIONS_iff HANDLE_LINKS_iff
        GROUP_MARKERS_iff group_marker_def TAG_TEMPLATE_HANDLE_DEF_def ENTITY_TEMPLATE_def
        create_section_html_template_def SECTION_ID_def str_int_def str_nat.simps
        upper_def upper_char_def escape_char_def sections_toc_as_html_def TOC_TPL_def
        TOC_ENTRY_TPL_def HTML_TEMPLATE_def get_name_def enumerate_eq_zip
        sublist_Cons_right)
qed

end
